theory Spec2Isabelle
  imports Main "HOL-Library.AList" "HOL-Library.Sublist"
begin

section \<open>Python values\<close>

text \<open>
  The three modules pass plain Python dictionaries around (\<open>Dict[str, Any]\<close>).  Their
  values are the values \<open>json.loads\<close> can return plus the dictionaries and lists the
  program builds itself, so one datatype of values covers all of them.  A dictionary is an
  association list in insertion order (the report iterates over \<open>items()\<close>); every
  dictionary of this program has string keys.  Strings are byte strings here: the case
  functions below act on ASCII letters and leave every other character alone.  Python's
  \<open>str.title()\<close> knows the letters of every script, and the report applies it to field
  names that come from \<open>json.loads\<close>, so the report takes title-casing from the world
  (see below); \<open>str_title\<close> is its behaviour on ASCII text.
\<close>

datatype pyfloat = Finite bool nat int | Infinite bool | NaN

datatype pyval =
    PNone
  | PBool bool
  | PInt int
  | PFloat pyfloat
  | PStr string
  | PList "pyval list"
  | PDict "(string \<times> pyval) list"

type_synonym pydict = "(string \<times> pyval) list"

text \<open>
  Exceptions (subclasses of \<open>Exception\<close>) carry their message; \<open>str(e)\<close> reads it.
  \<open>TypeError\<close> and \<open>AttributeError\<close> are the two the interpreter raises in this program;
  \<open>ExternalError\<close> stands for whatever a library call raises (a refused connection, a
  quota, a \<open>JSONDecodeError\<close>).
\<close>

datatype exn = TypeError string | AttributeError string | ExternalError string

fun exn_str :: "exn \<Rightarrow> string" where
  "exn_str (TypeError m) = m"
| "exn_str (AttributeError m) = m"
| "exn_str (ExternalError m) = m"

text \<open>\<open>try: body except Exception as e: handler\<close>\<close>

definition try_except :: "exn + 'a \<Rightarrow> (exn \<Rightarrow> exn + 'a) \<Rightarrow> exn + 'a" where
  "try_except body handler = (case body of Inl e \<Rightarrow> handler e | Inr v \<Rightarrow> Inr v)"

text \<open>Sequencing of two statements: an exception of the first skips the second.\<close>

definition and_then :: "exn + 'a \<Rightarrow> ('a \<Rightarrow> exn + 'b) \<Rightarrow> exn + 'b" where
  "and_then m f = (case m of Inl e \<Rightarrow> Inl e | Inr v \<Rightarrow> f v)"

text \<open>Truth value of an object, as \<open>if x:\<close> tests it.\<close>

fun float_nonzero :: "pyfloat \<Rightarrow> bool" where
  "float_nonzero (Finite s m e) = (m \<noteq> 0)"
| "float_nonzero (Infinite s) = True"
| "float_nonzero NaN = True"

fun truthy :: "pyval \<Rightarrow> bool" where
  "truthy PNone = False"
| "truthy (PBool b) = b"
| "truthy (PInt n) = (n \<noteq> 0)"
| "truthy (PFloat f) = float_nonzero f"
| "truthy (PStr s) = (s \<noteq> [])"
| "truthy (PList xs) = (xs \<noteq> [])"
| "truthy (PDict kvs) = (kvs \<noteq> [])"

fun is_dict :: "pyval \<Rightarrow> bool" where
  "is_dict (PDict kvs) = True"
| "is_dict v = False"

fun type_name :: "pyval \<Rightarrow> string" where
  "type_name PNone = ''NoneType''"
| "type_name (PBool b) = ''bool''"
| "type_name (PInt n) = ''int''"
| "type_name (PFloat f) = ''float''"
| "type_name (PStr s) = ''str''"
| "type_name (PList xs) = ''list''"
| "type_name (PDict kvs) = ''dict''"

text \<open>\<open>d.get(k, default)\<close> and \<open>d[k] = v\<close> on a dictionary; \<open>k in d\<close> is \<open>map_of d k \<noteq> None\<close>.\<close>

definition dict_get :: "pydict \<Rightarrow> string \<Rightarrow> pyval \<Rightarrow> pyval" where
  "dict_get d k dflt = (case map_of d k of Some v \<Rightarrow> v | None \<Rightarrow> dflt)"

definition dict_set :: "string \<Rightarrow> pyval \<Rightarrow> pydict \<Rightarrow> pydict" where
  "dict_set k v d = AList.update k v d"

text \<open>\<open>obj.get(k, default)\<close> on an arbitrary object: only a dictionary has the method.\<close>

fun obj_get :: "pyval \<Rightarrow> string \<Rightarrow> pyval \<Rightarrow> exn + pyval" where
  "obj_get (PDict kvs) k dflt = Inr (dict_get kvs k dflt)"
| "obj_get v k dflt =
     Inl (AttributeError ([CHR 0x27] @ type_name v @ [CHR 0x27] @ '' object has no attribute '' @
                          [CHR 0x27] @ ''get'' @ [CHR 0x27]))"

subsection \<open>Strings\<close>

abbreviation nl :: string where
  "nl \<equiv> [CHR 0x0A]"

definition lower_letters :: string where
  "lower_letters = ''abcdefghijklmnopqrstuvwxyz''"

definition upper_letters :: string where
  "upper_letters = ''ABCDEFGHIJKLMNOPQRSTUVWXYZ''"

definition upper_char :: "char \<Rightarrow> char" where
  "upper_char c = (case map_of (zip lower_letters upper_letters) c of Some u \<Rightarrow> u | None \<Rightarrow> c)"

definition lower_char :: "char \<Rightarrow> char" where
  "lower_char c = (case map_of (zip upper_letters lower_letters) c of Some l \<Rightarrow> l | None \<Rightarrow> c)"

definition is_cased :: "char \<Rightarrow> bool" where
  "is_cased c = (c \<in> set lower_letters \<or> c \<in> set upper_letters)"

definition str_upper :: "string \<Rightarrow> string" where
  "str_upper s = map upper_char s"

definition str_lower :: "string \<Rightarrow> string" where
  "str_lower s = map lower_char s"

text \<open>\<open>s.capitalize()\<close>: first character upper case, the rest lower case.\<close>

fun str_capitalize :: "string \<Rightarrow> string" where
  "str_capitalize [] = []"
| "str_capitalize (c # cs) = upper_char c # map lower_char cs"

text \<open>
  \<open>s.title()\<close>: a letter that follows a letter is lowered, any other letter is raised; the
  flag says whether the previous character was a letter.
\<close>

fun title_from :: "bool \<Rightarrow> string \<Rightarrow> string" where
  "title_from prev [] = []"
| "title_from prev (c # cs) =
     (if is_cased c then (if prev then lower_char c else upper_char c) # title_from True cs
      else c # title_from False cs)"

definition str_title :: "string \<Rightarrow> string" where
  "str_title s = title_from False s"

text \<open>\<open>s.replace(a, b)\<close> for a single character \<open>a\<close>.\<close>

definition str_replace :: "char \<Rightarrow> string \<Rightarrow> string \<Rightarrow> string" where
  "str_replace a b s = concat (map (\<lambda>c. if c = a then b else [c]) s)"

text \<open>\<open>sep.join(xs)\<close> on a list of strings.\<close>

fun join :: "string \<Rightarrow> string list \<Rightarrow> string" where
  "join sep [] = []"
| "join sep [x] = x"
| "join sep (x # y # ys) = x @ sep @ join sep (y # ys)"

text \<open>Decimal digits of a number, for \<open>str(n)\<close>.\<close>

fun str_of_nat :: "nat \<Rightarrow> string" where
  "str_of_nat n =
     (if n < 10 then [''0123456789'' ! n]
      else str_of_nat (n div 10) @ [''0123456789'' ! (n mod 10)])"

declare str_of_nat.simps [simp del]

definition str_of_int :: "int \<Rightarrow> string" where
  "str_of_int i = (if i < 0 then ''-'' @ str_of_nat (nat (- i)) else str_of_nat (nat i))"

text \<open>
  \<open>str(v)\<close>, which every f-string applies to its fields.  A string is itself, an integer
  its decimal digits, and \<open>None\<close>, \<open>True\<close> and \<open>False\<close> their names.  The text of a
  float, a list or a dictionary is the interpreter's \<open>repr\<close>, a parameter here.
\<close>

fun py_str :: "(pyval \<Rightarrow> string) \<Rightarrow> pyval \<Rightarrow> string" where
  "py_str rp (PStr s) = s"
| "py_str rp (PInt n) = str_of_int n"
| "py_str rp PNone = ''None''"
| "py_str rp (PBool b) = (if b then ''True'' else ''False'')"
| "py_str rp v = rp v"

text \<open>\<open>len(v)\<close>\<close>

fun py_len :: "pyval \<Rightarrow> exn + nat" where
  "py_len (PStr s) = Inr (length s)"
| "py_len (PList xs) = Inr (length xs)"
| "py_len (PDict kvs) = Inr (length kvs)"
| "py_len v = Inl (TypeError (''object of type '' @ [CHR 0x27] @ type_name v @ [CHR 0x27] @ '' has no len()''))"

text \<open>
  \<open>sep.join(v)\<close> on an arbitrary object: a list must hold strings only, a string is joined
  character by character, a dictionary by its keys, and nothing else is iterable.
\<close>

fun join_items :: "nat \<Rightarrow> pyval list \<Rightarrow> exn + string list" where
  "join_items i [] = Inr []"
| "join_items i (PStr s # vs) = and_then (join_items (Suc i) vs) (\<lambda>ss. Inr (s # ss))"
| "join_items i (v # vs) =
     Inl (TypeError (''sequence item '' @ str_of_nat i @ '': expected str instance, '' @
                     type_name v @ '' found''))"

fun py_join :: "string \<Rightarrow> pyval \<Rightarrow> exn + string" where
  "py_join sep (PList vs) = and_then (join_items 0 vs) (\<lambda>ss. Inr (join sep ss))"
| "py_join sep (PStr s) = Inr (join sep (map (\<lambda>c. [c]) s))"
| "py_join sep (PDict kvs) = Inr (join sep (map fst kvs))"
| "py_join sep v = Inl (TypeError ''can only join an iterable'')"

text \<open>\<open>obj.items()\<close>\<close>

fun py_items :: "pyval \<Rightarrow> exn + (string \<times> pyval) list" where
  "py_items (PDict kvs) = Inr kvs"
| "py_items v =
     Inl (AttributeError ([CHR 0x27] @ type_name v @ [CHR 0x27] @ '' object has no attribute '' @
                          [CHR 0x27] @ ''items'' @ [CHR 0x27]))"

section \<open>The world outside the program\<close>

text \<open>
  What the program asks of its libraries is a parameter of the model: the HTTP request of
  \<open>requests.get\<close>, the HTML lookup of BeautifulSoup, the Gemini call, \<open>json.loads\<close>, the
  clock, \<open>repr\<close> and \<open>str.title()\<close>.  A library call that raises returns \<open>Inl\<close>.

  \<^item> \<open>soup_paragraphs html\<close> is \<open>None\<close> when the page has no
    \<open>div\<close> with id \<open>mw-content-container\<close>, and otherwise the texts of the \<open>p\<close> elements
    inside it.
  \<^item> \<open>generate_content prompt\<close> is the \<open>text\<close> of the response, or \<open>Inl\<close> when the call
    raises or the response has no text to read.  The five prompts of one analysis differ
    from each other, so a function of the prompt can give each dimension any outcome.
\<close>

record http_response =
  status_code :: int
  response_content :: string

record world =
  requests_get :: "string \<Rightarrow> exn + http_response"
  soup_paragraphs :: "string \<Rightarrow> exn + string list option"
  generate_content :: "string \<Rightarrow> exn + string"
  json_loads :: "string \<Rightarrow> exn + pyval"
  now_isoformat :: string
  repr :: "pyval \<Rightarrow> string"
  title :: "string \<Rightarrow> string"

section \<open>data_scraper.py\<close>

definition scrape_wikipedia :: "world \<Rightarrow> string \<Rightarrow> exn + pyval" where
  "scrape_wikipedia w query =
     try_except
       (and_then (requests_get w (''https://en.wikipedia.org/wiki/'' @ str_replace CHR '' '' ''_'' query))
          (\<lambda>response.
             if status_code response = 200 then
               and_then (soup_paragraphs w (response_content response))
                 (\<lambda>content_div.
                    case content_div of
                      Some paragraphs \<Rightarrow>
                        Inr (PDict [(''title'', PStr query),
                                    (''content'', PStr (join '' '' (take 5 paragraphs)))])
                    | None \<Rightarrow> Inr PNone)
             else Inr PNone))
       (\<lambda>e. Inr PNone)"

definition scrape_google_search :: "string \<Rightarrow> exn + pyval" where
  "scrape_google_search query =
     try_except
       (Inr (PList [
          PDict [(''title'', PStr (query @ '' - Official Information'')),
                 (''url'', PStr (''https://example.com/search?q='' @ query)),
                 (''snippet'', PStr (''Information about '' @ query @ '' from official sources.''))],
          PDict [(''title'', PStr (query @ '' - LinkedIn Profile'')),
                 (''url'', PStr (''https://linkedin.com/in/'' @ str_replace CHR '' '' [] (str_lower query))),
                 (''snippet'', PStr (''Professional details about '' @ query @ ''.''))],
          PDict [(''title'', PStr (query @ '' - Recent News'')),
                 (''url'', PStr (''https://news.google.com/search?q='' @ query)),
                 (''snippet'', PStr (''Latest news and updates about '' @ query @ ''.''))]]))
       (\<lambda>e. Inr (PList []))"

definition scrape_company_info :: "string \<Rightarrow> exn + pyval" where
  "scrape_company_info query =
     try_except
       (Inr (PDict [(''name'', PStr query),
                    (''founded'', PStr ''Unknown''),
                    (''industry'', PStr ''Technology''),
                    (''employees'', PStr ''Unknown''),
                    (''revenue'', PStr ''Unknown''),
                    (''description'', PStr (''Company information for '' @ query))]))
       (\<lambda>e. Inr PNone)"

text \<open>
  The body of \<open>scrape\<close> once the three attempts have returned: \<open>data['sources']\<close> and
  \<open>data['raw_content']\<close> are threaded through the three \<open>if\<close> blocks as a pair.
\<close>

definition scrape_collect :: "string \<Rightarrow> string \<Rightarrow> pyval \<Rightarrow> pyval \<Rightarrow> pyval \<Rightarrow> pydict" where
  "scrape_collect query now wiki_data google_data company_data =
     (let st0 = ([], []);
          st1 = (if truthy wiki_data
                 then (fst st0 @ [PStr ''Wikipedia''], dict_set ''wikipedia'' wiki_data (snd st0))
                 else st0);
          st2 = (if truthy google_data
                 then (fst st1 @ [PStr ''Google Search''], dict_set ''google'' google_data (snd st1))
                 else st1);
          st3 = (if truthy company_data
                 then (fst st2 @ [PStr ''Company Database''], dict_set ''company'' company_data (snd st2))
                 else st2)
      in [(''query'', PStr query),
          (''timestamp'', PStr now),
          (''sources'', PList (fst st3)),
          (''raw_content'', PDict (snd st3))])"

definition scrape :: "world \<Rightarrow> string \<Rightarrow> exn + pydict" where
  "scrape w query =
     and_then (scrape_wikipedia w query) (\<lambda>wiki_data.
     and_then (scrape_google_search query) (\<lambda>google_data.
     and_then (scrape_company_info query) (\<lambda>company_data.
       Inr (scrape_collect query (now_isoformat w) wiki_data google_data company_data))))"

definition validate_data :: "pydict \<Rightarrow> bool" where
  "validate_data data = list_all (\<lambda>key. map_of data key \<noteq> None) [''query'', ''sources'', ''raw_content'']"

section \<open>data_analyzer.py\<close>

text \<open>One entry of \<open>raw_content\<close> in the context: the body of the loop of \<open>_prepare_context\<close>.\<close>

definition source_block :: "(pyval \<Rightarrow> string) \<Rightarrow> string \<times> pyval \<Rightarrow> string" where
  "source_block rp entry =
     (case entry of (source, content) \<Rightarrow>
        nl @ str_upper source @ '':'' @ nl @
        (case content of
           PDict kvs \<Rightarrow> concat (map (\<lambda>(key, val). key @ '': '' @ py_str rp val @ nl) kvs)
         | _ \<Rightarrow> take 500 (py_str rp content) @ ''...'' @ nl))"

definition prepare_context :: "world \<Rightarrow> pydict \<Rightarrow> exn + string" where
  "prepare_context w data =
     and_then (py_join '', '' (dict_get data ''sources'' (PList []))) (\<lambda>sources.
     and_then (py_items (dict_get data ''raw_content'' (PDict []))) (\<lambda>items.
       Inr (''Analyze the following information:'' @ nl @ nl @
            ''Query: '' @ py_str (repr w) (dict_get data ''query'' (PStr ''Unknown'')) @ nl @
            ''Sources: '' @ sources @ nl @ nl @
            concat (map (source_block (repr w)) items))))"

text \<open>
  The five prompts.  Each is a triple-quoted f-string, so the lines after the first keep the
  twelve blanks of the source's indentation.
\<close>

definition financial_prompt :: "string \<Rightarrow> string" where
  "financial_prompt context =
     context @ nl @ nl @
     ''Based on the above information, provide a detailed financial analysis including:'' @ nl @
     ''            - Revenue trends'' @ nl @
     ''            - Profitability metrics'' @ nl @
     ''            - Financial health indicators'' @ nl @
     ''            - Investment potential'' @ nl @
     ''            '' @ nl @
     ''            Format as JSON with keys: revenue, profitability, health, investment_rating''"

definition history_prompt :: "string \<Rightarrow> string" where
  "history_prompt context =
     context @ nl @ nl @
     ''Provide a historical analysis including:'' @ nl @
     ''            - Key milestones'' @ nl @
     ''            - Company evolution'' @ nl @
     ''            - Major achievements'' @ nl @
     ''            - Turning points'' @ nl @
     ''            '' @ nl @
     ''            Format as detailed narrative.''"

definition industry_prompt :: "string \<Rightarrow> string" where
  "industry_prompt context =
     context @ nl @ nl @
     ''Analyze the industry and market including:'' @ nl @
     ''            - Industry trends'' @ nl @
     ''            - Market position'' @ nl @
     ''            - Competitive landscape'' @ nl @
     ''            - Growth opportunities'' @ nl @
     ''            '' @ nl @
     ''            Format as structured analysis.''"

definition swot_prompt :: "string \<Rightarrow> string" where
  "swot_prompt context =
     context @ nl @ nl @
     ''Perform a SWOT analysis providing:'' @ nl @
     ''            - Strengths (at least 3)'' @ nl @
     ''            - Weaknesses (at least 3)'' @ nl @
     ''            - Opportunities (at least 3)'' @ nl @
     ''            - Threats (at least 3)'' @ nl @
     ''            '' @ nl @
     ''            Format as JSON.''"

definition predictions_prompt :: "string \<Rightarrow> string" where
  "predictions_prompt context =
     context @ nl @ nl @
     ''Based on the analysis, provide:'' @ nl @
     ''            - Future outlook (next 1-3 years)'' @ nl @
     ''            - Key growth drivers'' @ nl @
     ''            - Risk factors'' @ nl @
     ''            - Strategic recommendations'' @ nl @
     ''            '' @ nl @
     ''            Format as structured predictions.''"

text \<open>
  The five analyses.  The outer \<open>try\<close> turns any exception into \<open>None\<close>; in the two
  structured ones the inner \<open>try\<close> turns a failure of \<open>json.loads\<close> into the one-field
  dictionary \<open>{'summary': response.text}\<close>.
\<close>

definition analyze_financial :: "world \<Rightarrow> string \<Rightarrow> exn + pyval" where
  "analyze_financial w context =
     try_except
       (and_then (generate_content w (financial_prompt context)) (\<lambda>text.
          try_except (json_loads w text) (\<lambda>e. Inr (PDict [(''summary'', PStr text)]))))
       (\<lambda>e. Inr PNone)"

definition analyze_history :: "world \<Rightarrow> string \<Rightarrow> exn + pyval" where
  "analyze_history w context =
     try_except
       (and_then (generate_content w (history_prompt context)) (\<lambda>text.
          Inr (PDict [(''timeline'', PStr text)])))
       (\<lambda>e. Inr PNone)"

definition analyze_industry :: "world \<Rightarrow> string \<Rightarrow> exn + pyval" where
  "analyze_industry w context =
     try_except
       (and_then (generate_content w (industry_prompt context)) (\<lambda>text.
          Inr (PDict [(''market_analysis'', PStr text)])))
       (\<lambda>e. Inr PNone)"

definition analyze_swot :: "world \<Rightarrow> string \<Rightarrow> exn + pyval" where
  "analyze_swot w context =
     try_except
       (and_then (generate_content w (swot_prompt context)) (\<lambda>text.
          try_except (json_loads w text) (\<lambda>e. Inr (PDict [(''summary'', PStr text)]))))
       (\<lambda>e. Inr PNone)"

definition analyze_predictions :: "world \<Rightarrow> string \<Rightarrow> exn + pyval" where
  "analyze_predictions w context =
     try_except
       (and_then (generate_content w (predictions_prompt context)) (\<lambda>text.
          Inr (PDict [(''outlook'', PStr text)])))
       (\<lambda>e. Inr PNone)"

definition error_insights :: "world \<Rightarrow> pydict \<Rightarrow> string \<Rightarrow> pydict" where
  "error_insights w data error =
     [(''timestamp'', PStr (now_isoformat w)),
      (''query'', dict_get data ''query'' PNone),
      (''error'', PStr error),
      (''analysis'', PDict [(''status'', PStr ''Analysis incomplete''),
                            (''message'', PStr (''Analysis failed: '' @ error))])]"

text \<open>
  \<open>insights['analysis'][k] = v\<close> under \<open>if v:\<close>, one step of the body of \<open>analyze\<close>.
\<close>

definition store_if :: "string \<Rightarrow> pyval \<Rightarrow> pydict \<Rightarrow> pydict" where
  "store_if k v analysis = (if truthy v then dict_set k v analysis else analysis)"

definition analyze :: "world \<Rightarrow> pydict \<Rightarrow> exn + pydict" where
  "analyze w data =
     try_except
       (and_then (prepare_context w data) (\<lambda>context.
        and_then (py_len (dict_get data ''sources'' (PList []))) (\<lambda>n.
        and_then (analyze_financial w context) (\<lambda>fin_analysis.
        and_then (analyze_history w context) (\<lambda>hist_analysis.
        and_then (analyze_industry w context) (\<lambda>industry_analysis.
        and_then (analyze_swot w context) (\<lambda>swot_analysis.
        and_then (analyze_predictions w context) (\<lambda>predictions.
          Inr [(''timestamp'', PStr (now_isoformat w)),
               (''query'', dict_get data ''query'' (PStr ''Unknown'')),
               (''sources_analyzed'', PInt (int n)),
               (''analysis'',
                PDict (store_if ''predictions'' predictions
                      (store_if ''swot'' swot_analysis
                      (store_if ''industry'' industry_analysis
                      (store_if ''history'' hist_analysis
                      (store_if ''financial'' fin_analysis []))))))]))))))))
       (\<lambda>e. Inr (error_insights w data (exn_str e)))"

section \<open>report_generator.py\<close>

text \<open>
  The file under study ends with a stray closing brace after the last string literal; the
  model is of the module without it.
\<close>

definition template_version :: string where
  "template_version = ''1.0''"

definition build_header :: "world \<Rightarrow> string \<Rightarrow> pydict \<Rightarrow> string" where
  "build_header w query insights =
     (let timestamp = dict_get insights ''timestamp'' (PStr (now_isoformat w));
          sources = dict_get insights ''sources_analyzed'' (PInt 0)
      in ''# Research Report: '' @ query @ nl @ nl @
         ''**Generated:** '' @ py_str (repr w) timestamp @ nl @
         ''**Sources Analyzed:** '' @ py_str (repr w) sources @ nl @
         ''**Report Version:** '' @ template_version @ nl @ nl @
         ''---'' @ nl @ nl)"

definition build_executive_summary :: "world \<Rightarrow> pydict \<Rightarrow> string" where
  "build_executive_summary w insights =
     ''## Executive Summary'' @ nl @ nl @
     (if map_of insights ''error'' \<noteq> None
      then ''*Note: Analysis encountered an issue: '' @
           py_str (repr w) (dict_get insights ''error'' PNone) @ ''*'' @ nl @ nl
      else (let sources = dict_get insights ''sources_analyzed'' (PInt 0)
            in ''This report provides a comprehensive analysis of the subject based on '' @
               py_str (repr w) sources @ '' sources. '' @
               ''The analysis includes financial metrics, historical background, industry positioning, '' @
               ''SWOT analysis, and future predictions.'' @ nl @ nl))"

text \<open>\<open>insights.get('analysis', {}).get(k, {})\<close>, the first two lines of every section.\<close>

definition analysis_entry :: "pydict \<Rightarrow> string \<Rightarrow> exn + pyval" where
  "analysis_entry insights k = obj_get (dict_get insights ''analysis'' (PDict [])) k (PDict [])"

definition financial_line :: "(string \<Rightarrow> string) \<Rightarrow> (pyval \<Rightarrow> string) \<Rightarrow> string \<times> pyval \<Rightarrow> string" where
  "financial_line tc rp entry =
     (case entry of (key, val) \<Rightarrow>
        if key \<noteq> ''summary''
        then ''**'' @ tc (str_replace CHR ''_'' '' '' key) @ '':** '' @ py_str rp val @ nl @ nl
        else [])"

definition build_financial_section :: "world \<Rightarrow> pydict \<Rightarrow> exn + string" where
  "build_financial_section w insights =
     and_then (analysis_entry insights ''financial'') (\<lambda>financial.
       if \<not> truthy financial then Inr []
       else Inr (''## Financial Analysis'' @ nl @ nl @
                 (case financial of
                    PDict kvs \<Rightarrow> concat (map (financial_line (title w) (repr w)) kvs)
                  | _ \<Rightarrow> py_str (repr w) financial @ nl @ nl)))"

text \<open>
  The three narrative sections differ in the heading and in the field they read, so one
  function with the two as arguments stands for the three methods' common body.
\<close>

definition narrative_section :: "world \<Rightarrow> string \<Rightarrow> string \<Rightarrow> string \<Rightarrow> pydict \<Rightarrow> exn + string" where
  "narrative_section w dim heading field insights =
     and_then (analysis_entry insights dim) (\<lambda>v.
       if \<not> truthy v then Inr []
       else Inr (heading @ nl @ nl @
                 (case v of
                    PDict kvs \<Rightarrow>
                      (let t = dict_get kvs field (PStr [])
                       in if truthy t then py_str (repr w) t @ nl @ nl else [])
                  | _ \<Rightarrow> py_str (repr w) v @ nl @ nl)))"

definition build_history_section :: "world \<Rightarrow> pydict \<Rightarrow> exn + string" where
  "build_history_section w insights =
     narrative_section w ''history'' ''## History & Background'' ''timeline'' insights"

definition build_industry_section :: "world \<Rightarrow> pydict \<Rightarrow> exn + string" where
  "build_industry_section w insights =
     narrative_section w ''industry'' ''## Industry & Market Analysis'' ''market_analysis'' insights"

definition build_predictions_section :: "world \<Rightarrow> pydict \<Rightarrow> exn + string" where
  "build_predictions_section w insights =
     narrative_section w ''predictions'' ''## Future Outlook & Recommendations'' ''outlook'' insights"

text \<open>One category of the SWOT section: the body of the loop over the four names.\<close>

definition swot_category :: "(pyval \<Rightarrow> string) \<Rightarrow> pydict \<Rightarrow> string \<Rightarrow> string" where
  "swot_category rp swot category =
     (let items = dict_get swot category (PList [])
      in ''### '' @ str_capitalize category @ nl @
         (case items of
            PList xs \<Rightarrow> concat (map (\<lambda>item. ''- '' @ py_str rp item @ nl) xs)
          | _ \<Rightarrow> py_str rp items @ nl) @
         nl)"

definition build_swot_section :: "world \<Rightarrow> pydict \<Rightarrow> exn + string" where
  "build_swot_section w insights =
     and_then (analysis_entry insights ''swot'') (\<lambda>swot.
       if \<not> truthy swot then Inr []
       else Inr (''## SWOT Analysis'' @ nl @ nl @
                 (case swot of
                    PDict kvs \<Rightarrow>
                      concat (map (swot_category (repr w) kvs)
                                  [''strengths'', ''weaknesses'', ''opportunities'', ''threats''])
                  | _ \<Rightarrow> py_str (repr w) swot @ nl @ nl)))"

definition build_footer :: string where
  "build_footer =
     ''---'' @ nl @ nl @
     ''*Report generated by AI Data Scientist Agent v'' @ template_version @ ''*'' @ nl @
     ''*Using Google Gemini API for intelligent analysis*'' @ nl @
     ''*For more information, visit: https://github.com/Angelsk2207/ai-data-scientist-agent*'' @ nl"

definition error_report :: "world \<Rightarrow> string \<Rightarrow> string \<Rightarrow> string" where
  "error_report w query error =
     ''# Error Report: '' @ query @ nl @ nl @
     ''**Status:** Analysis Failed'' @ nl @
     ''**Error:** '' @ error @ nl @
     ''**Generated:** '' @ now_isoformat w @ nl @ nl @
     ''The analysis could not be completed due to the error mentioned above.'' @ nl @
     ''Please try again or contact support.'' @ nl"

definition generate :: "world \<Rightarrow> string \<Rightarrow> pydict \<Rightarrow> exn + string" where
  "generate w query insights =
     try_except
       (and_then (build_financial_section w insights) (\<lambda>financial.
        and_then (build_history_section w insights) (\<lambda>history.
        and_then (build_industry_section w insights) (\<lambda>industry.
        and_then (build_swot_section w insights) (\<lambda>swot.
        and_then (build_predictions_section w insights) (\<lambda>predictions.
          Inr (build_header w query insights @
               build_executive_summary w insights @
               financial @ history @ industry @ swot @ predictions @
               build_footer)))))))
       (\<lambda>e. Inr (error_report w query (exn_str e)))"

section \<open>Vocabulary of the properties\<close>

text \<open>
  The five analyses under one name each, so that a property can speak of a dimension: its
  key in \<open>analysis\<close>, its prompt and its method.
\<close>

datatype dimension = Financial | History | Industry | Swot | Predictions

definition all_dimensions :: "dimension list" where
  "all_dimensions = [Financial, History, Industry, Swot, Predictions]"

fun dim_key :: "dimension \<Rightarrow> string" where
  "dim_key Financial = ''financial''"
| "dim_key History = ''history''"
| "dim_key Industry = ''industry''"
| "dim_key Swot = ''swot''"
| "dim_key Predictions = ''predictions''"

fun dim_prompt :: "dimension \<Rightarrow> string \<Rightarrow> string" where
  "dim_prompt Financial = financial_prompt"
| "dim_prompt History = history_prompt"
| "dim_prompt Industry = industry_prompt"
| "dim_prompt Swot = swot_prompt"
| "dim_prompt Predictions = predictions_prompt"

fun analyze_dimension :: "world \<Rightarrow> dimension \<Rightarrow> string \<Rightarrow> exn + pyval" where
  "analyze_dimension w Financial = analyze_financial w"
| "analyze_dimension w History = analyze_history w"
| "analyze_dimension w Industry = analyze_industry w"
| "analyze_dimension w Swot = analyze_swot w"
| "analyze_dimension w Predictions = analyze_predictions w"

fun structured :: "dimension \<Rightarrow> bool" where
  "structured Financial = True"
| "structured Swot = True"
| "structured d = False"

text \<open>
  What can happen to the backend call of a dimension: the call fails; or, for the two
  structured dimensions, it returns text that \<open>json.loads\<close> parses to a false value.  A
  dimension is usable when neither happens.
\<close>

definition call_fails :: "world \<Rightarrow> string \<Rightarrow> dimension \<Rightarrow> bool" where
  "call_fails w context d = isl (generate_content w (dim_prompt d context))"

definition parses_falsy :: "world \<Rightarrow> string \<Rightarrow> dimension \<Rightarrow> bool" where
  "parses_falsy w context d =
     (structured d \<and>
      (case generate_content w (dim_prompt d context) of
         Inl e \<Rightarrow> False
       | Inr text \<Rightarrow> (case json_loads w text of Inl e \<Rightarrow> False | Inr v \<Rightarrow> \<not> truthy v)))"

definition usable :: "world \<Rightarrow> string \<Rightarrow> dimension \<Rightarrow> bool" where
  "usable w context d = (\<not> call_fails w context d \<and> \<not> parses_falsy w context d)"

definition failing_dimensions :: "world \<Rightarrow> pydict \<Rightarrow> dimension list" where
  "failing_dimensions w data =
     (case prepare_context w data of
        Inl e \<Rightarrow> []
      | Inr context \<Rightarrow> filter (call_fails w context) all_dimensions)"

text \<open>Readers for results: a value as a list, the keys of a dictionary, a returned record.\<close>

fun list_of :: "pyval \<Rightarrow> pyval list" where
  "list_of (PList xs) = xs"
| "list_of v = []"

fun keys_of :: "pyval \<Rightarrow> string list" where
  "keys_of (PDict kvs) = map fst kvs"
| "keys_of v = []"

fun result_of :: "exn + pydict \<Rightarrow> pydict" where
  "result_of (Inr d) = d"
| "result_of (Inl e) = []"

definition analysis_of :: "exn + pydict \<Rightarrow> pyval" where
  "analysis_of r = dict_get (result_of r) ''analysis'' PNone"

text \<open>
  The synchronisation of \<open>sources\<close> and \<open>raw_content\<close> in the specification's words: every
  key of \<open>raw_content\<close> occurs exactly once in \<open>sources\<close>, and every entry of \<open>sources\<close>
  exactly once among the keys.
\<close>

definition keys_in_sync :: "pydict \<Rightarrow> bool" where
  "keys_in_sync data =
     (let sources = list_of (dict_get data ''sources'' PNone);
          keys = keys_of (dict_get data ''raw_content'' PNone)
      in list_all (\<lambda>k. count_list sources (PStr k) = 1) keys \<and>
         list_all (\<lambda>s. count_list (map PStr keys) s = 1) sources)"

text \<open>The key of \<open>raw_content\<close> under which \<open>scrape\<close> files the source of a given name.\<close>

definition source_key :: "pyval \<Rightarrow> string" where
  "source_key name =
     (if name = PStr ''Wikipedia'' then ''wikipedia''
      else if name = PStr ''Google Search'' then ''google''
      else if name = PStr ''Company Database'' then ''company''
      else [])"

text \<open>
  The field under which an analysis stores the text of the response as it is: the fixed
  field of a narrative dimension, the fallback field of a structured one.
\<close>

fun text_field :: "dimension \<Rightarrow> string" where
  "text_field Financial = ''summary''"
| "text_field History = ''timeline''"
| "text_field Industry = ''market_analysis''"
| "text_field Swot = ''summary''"
| "text_field Predictions = ''outlook''"

text \<open>The report's section of a dimension, its heading, and its text in a report.\<close>

fun section_of :: "world \<Rightarrow> dimension \<Rightarrow> pydict \<Rightarrow> exn + string" where
  "section_of w Financial = build_financial_section w"
| "section_of w History = build_history_section w"
| "section_of w Industry = build_industry_section w"
| "section_of w Swot = build_swot_section w"
| "section_of w Predictions = build_predictions_section w"

fun section_heading :: "dimension \<Rightarrow> string" where
  "section_heading Financial = ''## Financial Analysis''"
| "section_heading History = ''## History & Background''"
| "section_heading Industry = ''## Industry & Market Analysis''"
| "section_heading Swot = ''## SWOT Analysis''"
| "section_heading Predictions = ''## Future Outlook & Recommendations''"

definition section_text :: "world \<Rightarrow> pydict \<Rightarrow> dimension \<Rightarrow> string" where
  "section_text w insights d = (case section_of w d insights of Inr s \<Rightarrow> s | Inl e \<Rightarrow> [])"

text \<open>
  An insight record whose \<open>swot\<close> entry is the fallback \<open>{'summary': text}\<close>: the record
  \<open>insights\<close> with \<open>analysis\<close> set to the dictionary \<open>analysis\<close> completed by that entry.
\<close>

definition with_swot_summary :: "string \<Rightarrow> pydict \<Rightarrow> pydict \<Rightarrow> pydict" where
  "with_swot_summary text analysis insights =
     dict_set ''analysis'' (PDict (dict_set ''swot'' (PDict [(''summary'', PStr text)]) analysis)) insights"

section \<open>Example inputs\<close>

text \<open>
  A world without network: every HTTP request is refused.  The backend is an argument.
  \<open>json_loads_sample\<close> is \<open>json.loads\<close> on the three JSON texts the examples send and
  raises on any other text; the examples send no other JSON.  No example renders a float,
  a list or a dictionary, so \<open>repr\<close> is never called.  The field names of the examples are
  ASCII text, on which \<open>str.title()\<close> is \<open>str_title\<close>.
\<close>

definition refuse :: "string \<Rightarrow> exn + http_response" where
  "refuse url = Inl (ExternalError ''connection refused'')"

definition no_page :: "string \<Rightarrow> exn + string list option" where
  "no_page html = Inr None"

definition reply_with :: "string \<Rightarrow> string \<Rightarrow> exn + string" where
  "reply_with text prompt = Inr text"

definition json_loads_sample :: "string \<Rightarrow> exn + pyval" where
  "json_loads_sample s =
     (if s = ''{}'' then Inr (PDict [])
      else if s = ''null'' then Inr PNone
      else if s = ''[1]'' then Inr (PList [PInt 1])
      else Inl (ExternalError ''Expecting value: line 1 column 1 (char 0)''))"

definition no_repr :: "pyval \<Rightarrow> string" where
  "no_repr v = []"

definition example_world :: "(string \<Rightarrow> exn + string) \<Rightarrow> world" where
  "example_world backend =
     \<lparr>requests_get = refuse, soup_paragraphs = no_page, generate_content = backend,
      json_loads = json_loads_sample, now_isoformat = ''2024-01-01T00:00:00'', repr = no_repr,
      title = str_title\<rparr>"

definition acme_data :: pydict where
  "acme_data =
     [(''query'', PStr ''Acme Corp''),
      (''timestamp'', PStr ''2024-01-01T00:00:00''),
      (''sources'', PList [PStr ''Company Database'']),
      (''raw_content'', PDict [(''company'', PDict [(''name'', PStr ''Acme Corp''), (''industry'', PStr ''Technology'')])])]"

text \<open>The context \<open>_prepare_context\<close> builds from \<open>acme_data\<close>.\<close>

definition acme_context :: string where
  "acme_context =
     ''Analyze the following information:'' @ nl @ nl @
     ''Query: Acme Corp'' @ nl @
     ''Sources: Company Database'' @ nl @ nl @
     nl @ ''COMPANY:'' @ nl @
     ''name: Acme Corp'' @ nl @
     ''industry: Technology'' @ nl"

text \<open>A backend whose quota runs out on the history and the SWOT request for that context.\<close>

definition quota_backend :: "string \<Rightarrow> exn + string" where
  "quota_backend prompt =
     (if prompt = history_prompt acme_context \<or> prompt = swot_prompt acme_context
      then Inl (ExternalError ''quota exceeded'')
      else Inr ''Revenue is up'')"

text \<open>Insight records for the report generator.\<close>

definition financial_insights :: pydict where
  "financial_insights =
     [(''analysis'',
       PDict [(''financial'', PDict [(''revenue'', PStr ''growing''),
                                     (''summary'', PStr ''n/a''),
                                     (''investment_rating'', PStr ''buy'')])])]"

definition summary_only_insights :: pydict where
  "summary_only_insights =
     [(''analysis'', PDict [(''financial'', PDict [(''summary'', PStr ''Revenue is up'')])])]"

definition history_only_insights :: pydict where
  "history_only_insights =
     [(''timestamp'', PStr ''2024-01-01T00:00:00''),
      (''query'', PStr ''Acme Corp''),
      (''sources_analyzed'', PInt 3),
      (''analysis'', PDict [(''history'', PDict [(''timeline'', PStr ''Founded in 1949.'')])])]"

definition empty_insights :: pydict where
  "empty_insights =
     [(''timestamp'', PStr ''2024-01-01T00:00:00''),
      (''query'', PStr ''Acme Corp''),
      (''sources_analyzed'', PInt 0),
      (''analysis'', PDict [])]"

text \<open>
  Three records with three sources: every dimension failed; every dimension succeeded; the
  analysis failed as a whole.
\<close>

definition all_failed_insights :: pydict where
  "all_failed_insights =
     [(''timestamp'', PStr ''2024-01-01T00:00:00''),
      (''query'', PStr ''Acme Corp''),
      (''sources_analyzed'', PInt 3),
      (''analysis'', PDict [])]"

definition complete_insights :: pydict where
  "complete_insights =
     [(''timestamp'', PStr ''2024-01-01T00:00:00''),
      (''query'', PStr ''Acme Corp''),
      (''sources_analyzed'', PInt 3),
      (''analysis'',
       PDict [(''financial'', PDict [(''revenue'', PStr ''growing'')]),
              (''history'', PDict [(''timeline'', PStr ''Founded in 1949.'')]),
              (''industry'', PDict [(''market_analysis'', PStr ''A crowded market.'')]),
              (''swot'', PDict [(''strengths'', PList [PStr ''Brand''])]),
              (''predictions'', PDict [(''outlook'', PStr ''Stable.'')])])]"

definition failed_insights :: pydict where
  "failed_insights =
     [(''timestamp'', PStr ''2024-01-01T00:00:00''),
      (''query'', PStr ''Acme Corp''),
      (''error'', PStr ''can only join an iterable''),
      (''analysis'', PDict [(''status'', PStr ''Analysis incomplete''),
                            (''message'', PStr ''Analysis failed: can only join an iterable'')])]"

section \<open>Properties of the scraper\<close>

lemma try_except_simps [simp]:
  "try_except (Inr v) h = Inr v" "try_except (Inl e) h = h e"
  by (simp_all add: try_except_def)

lemma and_then_simps [simp]:
  "and_then (Inr v) f = f v" "and_then (Inl e) f = Inl e"
  by (simp_all add: and_then_def)

lemma scrape_wikipedia_cases:
  "scrape_wikipedia w query = Inr PNone \<or>
   (\<exists>t. scrape_wikipedia w query = Inr (PDict [(''title'', PStr query), (''content'', PStr t)]))"
  by (auto simp: scrape_wikipedia_def try_except_def and_then_def split: sum.splits option.splits)

lemma scrape_cases:
  "scrape w query = Inr [(''query'', PStr query), (''timestamp'', PStr (now_isoformat w)),
      (''sources'', PList [PStr ''Google Search'', PStr ''Company Database'']),
      (''raw_content'', PDict [(''google'', projr (scrape_google_search query)),
                               (''company'', projr (scrape_company_info query))])]
   \<or> (\<exists>wiki. scrape w query = Inr [(''query'', PStr query), (''timestamp'', PStr (now_isoformat w)),
      (''sources'', PList [PStr ''Wikipedia'', PStr ''Google Search'', PStr ''Company Database'']),
      (''raw_content'', PDict [(''wikipedia'', wiki), (''google'', projr (scrape_google_search query)),
                               (''company'', projr (scrape_company_info query))])])"
  using scrape_wikipedia_cases [of w query]
  by (auto simp: scrape_def scrape_collect_def scrape_google_search_def scrape_company_info_def dict_set_def)

text \<open>
  C2, as amended.  Every result of \<open>scrape\<close> holds the query, the timestamp, the list
  \<open>sources\<close> and the dictionary \<open>raw_content\<close>, and the two are in step: the i-th name
  of \<open>sources\<close> is the source filed under the i-th key of \<open>raw_content\<close> (Wikipedia under
  wikipedia, Google Search under google, Company Database under company), no name and no
  key occurs twice, and every name is one of the three.
\<close>

theorem scrape_sources_paired:
  "\<exists>srcs raw. scrape w query =
       Inr [(''query'', PStr query), (''timestamp'', PStr (now_isoformat w)),
            (''sources'', PList srcs), (''raw_content'', PDict raw)]
     \<and> map source_key srcs = map fst raw
     \<and> distinct srcs \<and> distinct (map fst raw)
     \<and> set srcs \<subseteq> {PStr ''Wikipedia'', PStr ''Google Search'', PStr ''Company Database''}"
  using scrape_cases [of w query]
  by (auto simp: source_key_def)

text \<open>
  C2 as stated fails: the keys of \<open>raw_content\<close> are not the entries of \<open>sources\<close>.
  Without network, \<open>sources\<close> is \<open>['Google Search', 'Company Database']\<close> and the keys are
  \<open>google\<close> and \<open>company\<close>, none of which occurs in \<open>sources\<close>.
\<close>

theorem scrape_keys_differ_from_sources:
  "dict_get (result_of (scrape (example_world (reply_with ''{}'')) ''Acme Corp'')) ''sources'' PNone
     = PList [PStr ''Google Search'', PStr ''Company Database'']
   \<and> keys_of (dict_get (result_of (scrape (example_world (reply_with ''{}'')) ''Acme Corp'')) ''raw_content'' PNone)
     = [''google'', ''company'']
   \<and> \<not> keys_in_sync (result_of (scrape (example_world (reply_with ''{}'')) ''Acme Corp''))"
  by (simp add: scrape_def scrape_collect_def scrape_wikipedia_def scrape_google_search_def
        scrape_company_info_def example_world_def refuse_def dict_set_def dict_get_def keys_in_sync_def)

text \<open>
  C7.  For every query \<open>scrape\<close> returns a record, never an exception, and the record has
  the three required keys; each of the three attempts returns as well.  When all three
  attempts come back with nothing (a false value, as the \<open>except\<close> branches return), the
  record has an empty \<open>sources\<close> list and an empty \<open>raw_content\<close> and is still valid.
\<close>

theorem scrape_never_raises:
  "(\<exists>v. scrape_wikipedia w query = Inr v) \<and>
   (\<exists>v. scrape_google_search query = Inr v) \<and>
   (\<exists>v. scrape_company_info query = Inr v) \<and>
   (\<exists>data. scrape w query = Inr data \<and> validate_data data) \<and>
   (\<not> truthy wiki_data \<and> \<not> truthy google_data \<and> \<not> truthy company_data \<longrightarrow>
      scrape_collect query now wiki_data google_data company_data =
        [(''query'', PStr query), (''timestamp'', PStr now),
         (''sources'', PList []), (''raw_content'', PDict [])] \<and>
      validate_data (scrape_collect query now wiki_data google_data company_data))"
proof -
  have "\<exists>v. scrape_wikipedia w query = Inr v"
    using scrape_wikipedia_cases [of w query] by auto
  moreover have "\<exists>v. scrape_google_search query = Inr v"
    by (simp add: scrape_google_search_def)
  moreover have "\<exists>v. scrape_company_info query = Inr v"
    by (simp add: scrape_company_info_def)
  moreover have "\<exists>data. scrape w query = Inr data \<and> validate_data data"
    using scrape_cases [of w query] by (auto simp: validate_data_def)
  moreover have "\<not> truthy wiki_data \<and> \<not> truthy google_data \<and> \<not> truthy company_data \<longrightarrow>
      scrape_collect query now wiki_data google_data company_data =
        [(''query'', PStr query), (''timestamp'', PStr now),
         (''sources'', PList []), (''raw_content'', PDict [])] \<and>
      validate_data (scrape_collect query now wiki_data google_data company_data)"
    by (simp add: scrape_collect_def validate_data_def)
  ultimately show ?thesis by blast
qed

theorem scrape_never_raises_witness:
  "\<not> truthy PNone \<and> \<not> truthy (PList []) \<and>
   scrape_collect ''Acme Corp'' ''2024-01-01T00:00:00'' PNone (PList []) PNone =
     [(''query'', PStr ''Acme Corp''), (''timestamp'', PStr ''2024-01-01T00:00:00''),
      (''sources'', PList []), (''raw_content'', PDict [])] \<and>
   validate_data (scrape_collect ''Acme Corp'' ''2024-01-01T00:00:00'' PNone (PList []) PNone)"
  using scrape_never_raises [of "example_world (reply_with ''{}'')" "''Acme Corp''" PNone "PList []" PNone "''2024-01-01T00:00:00''"]
  by (simp add: validate_data_def)

section \<open>Properties of the analyzer\<close>

lemma join_items_strings: "join_items i (map PStr srcs) = Inr srcs"
  by (induction srcs arbitrary: i) simp_all

lemma prepare_context_ok:
  assumes "map_of data ''sources'' = Some (PList (map PStr srcs))"
      and "map_of data ''raw_content'' = Some (PDict raw)"
  shows "\<exists>context. prepare_context w data = Inr context"
  using assms by (simp add: prepare_context_def dict_get_def join_items_strings)

lemma analyze_dimension_returns:
  "\<exists>v. analyze_dimension w d context = Inr v \<and> (truthy v \<longleftrightarrow> usable w context d)"
  by (cases d)
     (auto simp: analyze_financial_def analyze_history_def analyze_industry_def analyze_swot_def
        analyze_predictions_def usable_def call_fails_def parses_falsy_def
        try_except_def and_then_def split: sum.splits)

lemma structured_unparseable:
  assumes "structured d" "generate_content w (dim_prompt d context) = Inr text" "json_loads w text = Inl e"
  shows "analyze_dimension w d context = Inr (PDict [(''summary'', PStr text)])"
  using assms by (cases d) (simp_all add: analyze_financial_def analyze_swot_def)

lemma map_of_store_if:
  "map_of (store_if k v a) k' = (if k' = k \<and> truthy v then Some v else map_of a k')"
  by (simp add: store_if_def dict_set_def update_conv')

lemma keys_store_chain:
  "map fst (store_if ''predictions'' v5 (store_if ''swot'' v4 (store_if ''industry'' v3
            (store_if ''history'' v2 (store_if ''financial'' v1 [])))))
   = map dim_key (filter (\<lambda>d. truthy (case d of Financial \<Rightarrow> v1 | History \<Rightarrow> v2 | Industry \<Rightarrow> v3
                                              | Swot \<Rightarrow> v4 | Predictions \<Rightarrow> v5)) all_dimensions)"
  by (cases "truthy v1"; cases "truthy v2"; cases "truthy v3"; cases "truthy v4"; cases "truthy v5")
     (simp_all add: store_if_def dict_set_def all_dimensions_def)

lemma analyze_normal:
  assumes "map_of data ''sources'' = Some (PList (map PStr srcs))"
      and "map_of data ''raw_content'' = Some (PDict raw)"
  shows "\<exists>context v1 v2 v3 v4 v5.
           prepare_context w data = Inr context \<and>
           analyze_financial w context = Inr v1 \<and> analyze_history w context = Inr v2 \<and>
           analyze_industry w context = Inr v3 \<and> analyze_swot w context = Inr v4 \<and>
           analyze_predictions w context = Inr v5 \<and>
           analyze w data =
             Inr [(''timestamp'', PStr (now_isoformat w)),
                  (''query'', dict_get data ''query'' (PStr ''Unknown'')),
                  (''sources_analyzed'', PInt (int (length srcs))),
                  (''analysis'',
                   PDict (store_if ''predictions'' v5 (store_if ''swot'' v4 (store_if ''industry'' v3
                         (store_if ''history'' v2 (store_if ''financial'' v1 []))))))]"
proof -
  obtain ctx where c: "prepare_context w data = Inr ctx"
    using prepare_context_ok [OF assms] by blast
  obtain v1 where v1: "analyze_financial w ctx = Inr v1"
    using analyze_dimension_returns [of w Financial ctx] by auto
  obtain v2 where v2: "analyze_history w ctx = Inr v2"
    using analyze_dimension_returns [of w History ctx] by auto
  obtain v3 where v3: "analyze_industry w ctx = Inr v3"
    using analyze_dimension_returns [of w Industry ctx] by auto
  obtain v4 where v4: "analyze_swot w ctx = Inr v4"
    using analyze_dimension_returns [of w Swot ctx] by auto
  obtain v5 where v5: "analyze_predictions w ctx = Inr v5"
    using analyze_dimension_returns [of w Predictions ctx] by auto
  have "py_len (dict_get data ''sources'' (PList [])) = Inr (length srcs)"
    using assms(1) by (simp add: dict_get_def)
  then show ?thesis
    using c v1 v2 v3 v4 v5 by (simp add: analyze_def)
qed

lemma acme_prepare_context: "prepare_context (example_world backend) acme_data = Inr acme_context"
  by (simp add: prepare_context_def acme_data_def acme_context_def dict_get_def source_block_def
        str_upper_def upper_char_def lower_letters_def upper_letters_def example_world_def)

lemma acme_well_formed:
  "map_of acme_data ''sources'' = Some (PList (map PStr [''Company Database'']))"
  "map_of acme_data ''raw_content'' =
     Some (PDict [(''company'', PDict [(''name'', PStr ''Acme Corp''), (''industry'', PStr ''Technology'')])])"
  by (simp_all add: acme_data_def)

lemma acme_failing:
  "failing_dimensions (example_world backend) acme_data
     = filter (call_fails (example_world backend) acme_context) all_dimensions"
  by (simp add: failing_dimensions_def acme_prepare_context)

lemma usable_value:
  "analyze_dimension w d context = Inr v \<Longrightarrow> truthy v = usable w context d"
  using analyze_dimension_returns [of w d "context"] by auto

lemma analyze_keys:
  assumes "map_of data ''sources'' = Some (PList (map PStr srcs))"
      and "map_of data ''raw_content'' = Some (PDict raw)"
  shows "\<exists>context an.
           prepare_context w data = Inr context \<and>
           analyze w data =
             Inr [(''timestamp'', PStr (now_isoformat w)),
                  (''query'', dict_get data ''query'' (PStr ''Unknown'')),
                  (''sources_analyzed'', PInt (int (length srcs))),
                  (''analysis'', PDict an)] \<and>
           map fst an = map dim_key (filter (usable w context) all_dimensions) \<and>
           (\<forall>d. map_of an (dim_key d) =
                  (case analyze_dimension w d context of
                     Inr v \<Rightarrow> if truthy v then Some v else None | Inl e \<Rightarrow> None)) \<and>
           (\<forall>k v. map_of an k = Some v \<longrightarrow> truthy v)"
proof -
  obtain ctx v1 v2 v3 v4 v5 where
    c: "prepare_context w data = Inr ctx" and
    v: "analyze_financial w ctx = Inr v1" "analyze_history w ctx = Inr v2"
       "analyze_industry w ctx = Inr v3" "analyze_swot w ctx = Inr v4"
       "analyze_predictions w ctx = Inr v5" and
    a: "analyze w data =
             Inr [(''timestamp'', PStr (now_isoformat w)),
                  (''query'', dict_get data ''query'' (PStr ''Unknown'')),
                  (''sources_analyzed'', PInt (int (length srcs))),
                  (''analysis'',
                   PDict (store_if ''predictions'' v5 (store_if ''swot'' v4 (store_if ''industry'' v3
                         (store_if ''history'' v2 (store_if ''financial'' v1 []))))))]"
    using analyze_normal [OF assms, of w] by blast
  let ?an = "store_if ''predictions'' v5 (store_if ''swot'' v4 (store_if ''industry'' v3
                         (store_if ''history'' v2 (store_if ''financial'' v1 []))))"
  have t: "truthy v1 = usable w ctx Financial" "truthy v2 = usable w ctx History"
          "truthy v3 = usable w ctx Industry" "truthy v4 = usable w ctx Swot"
          "truthy v5 = usable w ctx Predictions"
    using v usable_value [of w Financial ctx v1] usable_value [of w History ctx v2]
      usable_value [of w Industry ctx v3] usable_value [of w Swot ctx v4]
      usable_value [of w Predictions ctx v5]
    by simp_all
  have "filter (\<lambda>d. truthy (case d of Financial \<Rightarrow> v1 | History \<Rightarrow> v2 | Industry \<Rightarrow> v3
                                         | Swot \<Rightarrow> v4 | Predictions \<Rightarrow> v5)) all_dimensions
        = filter (usable w ctx) all_dimensions"
    using t by (simp add: all_dimensions_def)
  then have keys: "map fst ?an = map dim_key (filter (usable w ctx) all_dimensions)"
    by (simp add: keys_store_chain)
  have look: "map_of ?an (dim_key d) =
                  (case analyze_dimension w d ctx of
                     Inr v \<Rightarrow> if truthy v then Some v else None | Inl e \<Rightarrow> None)" for d
    using v by (cases d) (simp_all add: map_of_store_if)
  have tr: "map_of ?an k = Some x \<Longrightarrow> truthy x" for k x
    by (simp add: map_of_store_if split: if_splits)
  show ?thesis
    using c a keys look tr by blast
qed

text \<open>
  C1, as amended.  For a collection result (a list of source names and a dictionary of raw
  content) and any behaviour of the backend, \<open>analyze\<close> returns a record whose \<open>analysis\<close>
  has, in the fixed order, exactly the usable dimensions: those whose call did not fail and
  whose response did not parse to a false value.  \<open>sources_analyzed\<close> is the number of
  sources whatever happened to the dimensions.
\<close>

theorem analyze_partial_failure:
  assumes "map_of data ''sources'' = Some (PList (map PStr srcs))"
      and "map_of data ''raw_content'' = Some (PDict raw)"
  shows "\<exists>context an.
           prepare_context w data = Inr context \<and>
           analyze w data =
             Inr [(''timestamp'', PStr (now_isoformat w)),
                  (''query'', dict_get data ''query'' (PStr ''Unknown'')),
                  (''sources_analyzed'', PInt (int (length srcs))),
                  (''analysis'', PDict an)] \<and>
           map fst an = map dim_key (filter (usable w context) all_dimensions)"
  using analyze_keys [OF assms, of w] by blast

lemma quota_usable:
  "filter (usable (example_world quota_backend) acme_context) all_dimensions
     = [Financial, Industry, Predictions]"
  by (simp add: usable_def call_fails_def parses_falsy_def example_world_def quota_backend_def
        all_dimensions_def financial_prompt_def history_prompt_def industry_prompt_def
        swot_prompt_def predictions_prompt_def json_loads_sample_def)

theorem analyze_partial_failure_witness:
  "map_of acme_data ''sources'' = Some (PList (map PStr [''Company Database''])) \<and>
   map_of acme_data ''raw_content'' =
     Some (PDict [(''company'', PDict [(''name'', PStr ''Acme Corp''), (''industry'', PStr ''Technology'')])]) \<and>
   failing_dimensions (example_world quota_backend) acme_data = [History, Swot] \<and>
   (\<exists>an. analyze (example_world quota_backend) acme_data =
            Inr [(''timestamp'', PStr ''2024-01-01T00:00:00''),
                 (''query'', PStr ''Acme Corp''),
                 (''sources_analyzed'', PInt 1),
                 (''analysis'', PDict an)] \<and>
          map fst an = [''financial'', ''industry'', ''predictions''])"
proof -
  have f: "failing_dimensions (example_world quota_backend) acme_data = [History, Swot]"
    unfolding acme_failing
    by (simp add: call_fails_def example_world_def
          quota_backend_def all_dimensions_def financial_prompt_def history_prompt_def
          industry_prompt_def swot_prompt_def predictions_prompt_def)
  have q: "dict_get acme_data ''query'' (PStr ''Unknown'') = PStr ''Acme Corp''"
    by (simp add: acme_data_def dict_get_def)
  have n: "now_isoformat (example_world quota_backend) = ''2024-01-01T00:00:00''"
    by (simp add: example_world_def)
  show ?thesis
    using analyze_partial_failure [OF acme_well_formed, of "example_world quota_backend"]
      acme_well_formed f
    by (auto simp: acme_prepare_context quota_usable q n)
qed

text \<open>
  C1 as stated fails: when the backend answers every request with \<open>{}\<close>, no call fails,
  yet \<open>financial\<close> and \<open>swot\<close> are absent from \<open>analysis\<close>.
\<close>

lemma acme_analysis_keys:
  "\<exists>an. analysis_of (analyze (example_world backend) acme_data) = PDict an \<and>
     map fst an = map dim_key (filter (usable (example_world backend) acme_context) all_dimensions)"
  using analyze_keys [OF acme_well_formed, of "example_world backend"]
  by (auto simp: acme_prepare_context analysis_of_def dict_get_def)

theorem empty_object_reply_omitted:
  "failing_dimensions (example_world (reply_with ''{}'')) acme_data = [] \<and>
   keys_of (analysis_of (analyze (example_world (reply_with ''{}'')) acme_data))
     = [''history'', ''industry'', ''predictions'']"
proof -
  have "failing_dimensions (example_world (reply_with ''{}'')) acme_data = []"
    unfolding acme_failing
    by (simp add: call_fails_def example_world_def reply_with_def all_dimensions_def)
  moreover have "filter (usable (example_world (reply_with ''{}'')) acme_context) all_dimensions
     = [History, Industry, Predictions]"
    by (simp add: usable_def call_fails_def parses_falsy_def example_world_def reply_with_def
        all_dimensions_def json_loads_sample_def)
  ultimately show ?thesis
    using acme_analysis_keys [of "reply_with ''{}''"] by auto
qed

lemma dim_prompt_inj: "dim_prompt d context = dim_prompt d' context \<Longrightarrow> d = d'"
  by (cases d; cases d')
     (simp_all add: financial_prompt_def history_prompt_def industry_prompt_def swot_prompt_def
        predictions_prompt_def)

text \<open>
  C4, as amended.  For a structured dimension (financial or swot) whose backend call
  returns text that \<open>json.loads\<close> rejects, \<open>analysis\<close> holds the one-field dictionary
  \<open>{'summary': text}\<close> under that dimension.  The dimension is absent from \<open>analysis\<close>
  exactly when the call fails or the response parses to a false value.
\<close>

theorem unparseable_reply_kept_as_summary:
  assumes "map_of data ''sources'' = Some (PList (map PStr srcs))"
      and "map_of data ''raw_content'' = Some (PDict raw)"
      and "structured d"
  shows "\<exists>context an.
           prepare_context w data = Inr context \<and>
           analyze w data =
             Inr [(''timestamp'', PStr (now_isoformat w)),
                  (''query'', dict_get data ''query'' (PStr ''Unknown'')),
                  (''sources_analyzed'', PInt (int (length srcs))),
                  (''analysis'', PDict an)] \<and>
           (\<forall>text e. generate_content w (dim_prompt d context) = Inr text \<longrightarrow>
                     json_loads w text = Inl e \<longrightarrow>
                     map_of an (dim_key d) = Some (PDict [(''summary'', PStr text)])) \<and>
           (map_of an (dim_key d) = None \<longleftrightarrow> call_fails w context d \<or> parses_falsy w context d)"
proof -
  obtain ctx an where
    c: "prepare_context w data = Inr ctx" and
    a: "analyze w data =
             Inr [(''timestamp'', PStr (now_isoformat w)),
                  (''query'', dict_get data ''query'' (PStr ''Unknown'')),
                  (''sources_analyzed'', PInt (int (length srcs))),
                  (''analysis'', PDict an)]" and
    look: "\<And>d. map_of an (dim_key d) =
                  (case analyze_dimension w d ctx of
                     Inr v \<Rightarrow> if truthy v then Some v else None | Inl e \<Rightarrow> None)"
    using analyze_keys [OF assms(1,2), of w] by blast
  have s: "\<forall>t e. generate_content w (dim_prompt d ctx) = Inr t \<longrightarrow> json_loads w t = Inl e \<longrightarrow>
                 map_of an (dim_key d) = Some (PDict [(''summary'', PStr t)])"
  proof (intro allI impI)
    fix t e
    assume "generate_content w (dim_prompt d ctx) = Inr t" and "json_loads w t = Inl e"
    then have "analyze_dimension w d ctx = Inr (PDict [(''summary'', PStr t)])"
      using assms(3) by (rule structured_unparseable [rotated])
    then show "map_of an (dim_key d) = Some (PDict [(''summary'', PStr t)])"
      by (simp add: look)
  qed
  obtain v where v: "analyze_dimension w d ctx = Inr v" "truthy v = usable w ctx d"
    using analyze_dimension_returns [of w d ctx] by blast
  have o: "map_of an (dim_key d) = None \<longleftrightarrow> call_fails w ctx d \<or> parses_falsy w ctx d"
    using v by (simp add: look usable_def)
  show ?thesis
    using c a s o by (intro exI [of _ ctx] exI [of _ an]) simp
qed

theorem unparseable_reply_kept_as_summary_witness:
  "map_of acme_data ''sources'' = Some (PList (map PStr [''Company Database''])) \<and>
   map_of acme_data ''raw_content'' =
     Some (PDict [(''company'', PDict [(''name'', PStr ''Acme Corp''), (''industry'', PStr ''Technology'')])]) \<and>
   structured Swot \<and>
   generate_content (example_world (reply_with ''Revenue is up'')) (swot_prompt acme_context) = Inr ''Revenue is up'' \<and>
   json_loads (example_world (reply_with ''Revenue is up'')) ''Revenue is up'' = Inl (ExternalError ''Expecting value: line 1 column 1 (char 0)'') \<and>
   (\<exists>an. analyze (example_world (reply_with ''Revenue is up'')) acme_data =
            Inr [(''timestamp'', PStr ''2024-01-01T00:00:00''),
                 (''query'', PStr ''Acme Corp''),
                 (''sources_analyzed'', PInt 1),
                 (''analysis'', PDict an)] \<and>
          map_of an ''swot'' = Some (PDict [(''summary'', PStr ''Revenue is up'')]))"
proof -
  let ?w = "example_world (reply_with ''Revenue is up'')"
  have g: "generate_content ?w (swot_prompt acme_context) = Inr ''Revenue is up''"
    by (simp add: example_world_def reply_with_def)
  have j: "json_loads ?w ''Revenue is up'' = Inl (ExternalError ''Expecting value: line 1 column 1 (char 0)'')"
    by (simp add: example_world_def json_loads_sample_def)
  have q: "dict_get acme_data ''query'' (PStr ''Unknown'') = PStr ''Acme Corp''"
    by (simp add: acme_data_def dict_get_def)
  have n: "now_isoformat ?w = ''2024-01-01T00:00:00''"
    by (simp add: example_world_def)
  have s: "structured Swot" by simp
  obtain c an where
    c: "prepare_context ?w acme_data = Inr c" and
    a: "analyze ?w acme_data =
             Inr [(''timestamp'', PStr (now_isoformat ?w)),
                  (''query'', dict_get acme_data ''query'' (PStr ''Unknown'')),
                  (''sources_analyzed'', PInt (int (length [''Company Database'']))),
                  (''analysis'', PDict an)]" and
    k: "\<forall>text e. generate_content ?w (dim_prompt Swot c) = Inr text \<longrightarrow>
                     json_loads ?w text = Inl e \<longrightarrow>
                     map_of an (dim_key Swot) = Some (PDict [(''summary'', PStr text)])"
    using unparseable_reply_kept_as_summary [OF acme_well_formed s, of ?w] by blast
  have "c = acme_context"
    using c by (simp add: acme_prepare_context)
  then have "map_of an ''swot'' = Some (PDict [(''summary'', PStr ''Revenue is up'')])"
    using k g j by auto
  then show ?thesis
    using a g j acme_well_formed by (simp add: q n)
qed

text \<open>
  C4 as stated fails in its last clause: when the backend answers \<open>null\<close>, no call fails,
  \<open>json.loads\<close> succeeds, and \<open>financial\<close> and \<open>swot\<close> are omitted all the same.
\<close>

theorem null_reply_omitted:
  "failing_dimensions (example_world (reply_with ''null'')) acme_data = [] \<and>
   json_loads (example_world (reply_with ''null'')) ''null'' = Inr PNone \<and>
   keys_of (analysis_of (analyze (example_world (reply_with ''null'')) acme_data))
     = [''history'', ''industry'', ''predictions'']"
proof -
  have "failing_dimensions (example_world (reply_with ''null'')) acme_data = []"
    unfolding acme_failing
    by (simp add: call_fails_def example_world_def reply_with_def all_dimensions_def)
  moreover have "filter (usable (example_world (reply_with ''null'')) acme_context) all_dimensions
     = [History, Industry, Predictions]"
    by (simp add: usable_def call_fails_def parses_falsy_def example_world_def reply_with_def
        all_dimensions_def json_loads_sample_def)
  moreover have "json_loads (example_world (reply_with ''null'')) ''null'' = Inr PNone"
    by (simp add: example_world_def json_loads_sample_def)
  ultimately show ?thesis
    using acme_analysis_keys [of "reply_with ''null''"] by auto
qed

text \<open>
  C6.  \<open>analyze\<close> always returns a record and never an exception.  When the construction
  of the context raises, the record is the minimal one: \<open>error\<close> is the message of the
  exception and \<open>analysis\<close> is the status note with that message.
\<close>

theorem analyze_never_raises:
  "(\<exists>insights. analyze w data = Inr insights) \<and>
   (prepare_context w data = Inl e \<longrightarrow>
      analyze w data =
        Inr [(''timestamp'', PStr (now_isoformat w)),
             (''query'', dict_get data ''query'' PNone),
             (''error'', PStr (exn_str e)),
             (''analysis'', PDict [(''status'', PStr ''Analysis incomplete''),
                                   (''message'', PStr (''Analysis failed: '' @ exn_str e))])])"
proof -
  have "\<exists>insights. analyze w data = Inr insights"
    by (auto simp: analyze_def try_except_def and_then_def split: sum.splits)
  moreover have "prepare_context w data = Inl e \<longrightarrow>
      analyze w data =
        Inr [(''timestamp'', PStr (now_isoformat w)),
             (''query'', dict_get data ''query'' PNone),
             (''error'', PStr (exn_str e)),
             (''analysis'', PDict [(''status'', PStr ''Analysis incomplete''),
                                   (''message'', PStr (''Analysis failed: '' @ exn_str e))])]"
    by (simp add: analyze_def error_insights_def)
  ultimately show ?thesis by blast
qed

theorem analyze_never_raises_witness:
  "prepare_context (example_world (reply_with ''{}'')) [(''query'', PStr ''Acme Corp''), (''sources'', PNone)]
     = Inl (TypeError ''can only join an iterable'') \<and>
   analyze (example_world (reply_with ''{}'')) [(''query'', PStr ''Acme Corp''), (''sources'', PNone)] =
     Inr [(''timestamp'', PStr ''2024-01-01T00:00:00''),
          (''query'', PStr ''Acme Corp''),
          (''error'', PStr ''can only join an iterable''),
          (''analysis'', PDict [(''status'', PStr ''Analysis incomplete''),
                                (''message'', PStr ''Analysis failed: can only join an iterable'')])]"
proof -
  let ?w = "example_world (reply_with ''{}'')"
  let ?d = "[(''query'', PStr ''Acme Corp''), (''sources'', PNone)]"
  have p: "prepare_context ?w ?d = Inl (TypeError ''can only join an iterable'')"
    by (simp add: prepare_context_def dict_get_def)
  have n: "now_isoformat ?w = ''2024-01-01T00:00:00''"
    by (simp add: example_world_def)
  show ?thesis
    using analyze_never_raises [of ?w ?d "TypeError ''can only join an iterable''"] p
    by (simp add: n dict_get_def)
qed

lemma prepare_context_backend:
  "prepare_context (w\<lparr>generate_content := g\<rparr>) data = prepare_context w data"
  by (simp add: prepare_context_def)

lemma analyze_dimension_other:
  assumes "d' \<noteq> d"
  shows "analyze_dimension (w\<lparr>generate_content := (generate_content w)(dim_prompt d c := r)\<rparr>) d' c
           = analyze_dimension w d' c"
proof -
  have "dim_prompt d' c \<noteq> dim_prompt d c"
    using assms dim_prompt_inj by blast
  then show ?thesis
    by (cases d')
       (simp_all add: analyze_financial_def analyze_history_def analyze_industry_def
          analyze_swot_def analyze_predictions_def)
qed

lemma analyze_dimension_failed:
  "analyze_dimension (w\<lparr>generate_content := (generate_content w)(dim_prompt d c := Inl e)\<rparr>) d c
     = Inr PNone"
  by (cases d)
     (simp_all add: analyze_financial_def analyze_history_def analyze_industry_def
        analyze_swot_def analyze_predictions_def)

lemma analyze_as_if_failed:
  assumes "map_of data ''sources'' = Some (PList (map PStr srcs))"
      and "map_of data ''raw_content'' = Some (PDict raw)"
      and "prepare_context w data = Inr c"
      and "parses_falsy w c d"
  shows "analyze (w\<lparr>generate_content := (generate_content w)(dim_prompt d c := Inl e)\<rparr>) data
           = analyze w data"
proof -
  define w' where "w' = w\<lparr>generate_content := (generate_content w)(dim_prompt d c := Inl e)\<rparr>"
  obtain v where v: "analyze_dimension w d c = Inr v" "\<not> truthy v"
    using analyze_dimension_returns [of w d c] assms(4) by (auto simp: usable_def)
  have pc: "prepare_context w' data = Inr c"
    using assms(3) by (simp add: w'_def prepare_context_backend)
  have len: "py_len (dict_get data ''sources'' (PList [])) = Inr (length srcs)"
    using assms(1) by (simp add: dict_get_def)
  have other: "analyze_dimension w' d' c = analyze_dimension w d' c" if "d' \<noteq> d" for d'
    using that by (simp add: w'_def analyze_dimension_other)
  have self: "analyze_dimension w' d c = Inr PNone"
    by (simp add: w'_def analyze_dimension_failed)
  have now: "now_isoformat w' = now_isoformat w"
    by (simp add: w'_def)
  obtain v1 v2 v3 v4 v5 where
    r: "analyze_financial w c = Inr v1" "analyze_history w c = Inr v2"
       "analyze_industry w c = Inr v3" "analyze_swot w c = Inr v4"
       "analyze_predictions w c = Inr v5"
    using analyze_dimension_returns [of w Financial c] analyze_dimension_returns [of w History c]
      analyze_dimension_returns [of w Industry c] analyze_dimension_returns [of w Swot c]
      analyze_dimension_returns [of w Predictions c]
    by auto
  have "analyze w' data = analyze w data"
    using v self r other [of Financial] other [of History] other [of Industry] other [of Swot]
      other [of Predictions]
    by (cases d) (simp_all add: analyze_def pc assms(3) len now store_if_def)
  then show ?thesis
    by (simp add: w'_def)
qed

lemma analyze_dimension_value:
  assumes "analyze_dimension w d c = Inr v" and "truthy v"
  shows "\<exists>t. generate_content w (dim_prompt d c) = Inr t \<and>
             (if structured d
              then json_loads w t = Inr v \<or>
                   (isl (json_loads w t) \<and> v = PDict [(text_field d, PStr t)])
              else v = PDict [(text_field d, PStr t)])"
  using assms
  by (cases d)
     (auto simp: analyze_financial_def analyze_history_def analyze_industry_def analyze_swot_def
        analyze_predictions_def try_except_def and_then_def split: sum.splits)

text \<open>
  C8, as amended.  When the backend call of a dimension succeeds and the response parses to
  a false value, the dimension is absent from \<open>analysis\<close>, and the whole record is the one
  \<open>analyze\<close> returns when that call fails instead.  On the path without error the keys of
  \<open>analysis\<close> are keys of usable dimensions, and every value stored is true in Python's
  sense: for a narrative dimension it is the one-field dictionary of the response text
  under \<open>timeline\<close>, \<open>market_analysis\<close> or \<open>outlook\<close>; for financial and swot it is the
  value \<open>json.loads\<close> returned, which need not be a dictionary, or the fallback
  \<open>{'summary': text}\<close> when \<open>json.loads\<close> raised.
\<close>

theorem falsy_result_omitted:
  assumes "map_of data ''sources'' = Some (PList (map PStr srcs))"
      and "map_of data ''raw_content'' = Some (PDict raw)"
  shows "\<exists>context an.
           prepare_context w data = Inr context \<and>
           analyze w data =
             Inr [(''timestamp'', PStr (now_isoformat w)),
                  (''query'', dict_get data ''query'' (PStr ''Unknown'')),
                  (''sources_analyzed'', PInt (int (length srcs))),
                  (''analysis'', PDict an)] \<and>
           (parses_falsy w context d \<longrightarrow>
              map_of an (dim_key d) = None \<and>
              analyze (w\<lparr>generate_content := (generate_content w)(dim_prompt d context := Inl e)\<rparr>) data
                = analyze w data) \<and>
           (\<forall>k v. map_of an k = Some v \<longrightarrow> truthy v) \<and>
           map fst an = map dim_key (filter (usable w context) all_dimensions) \<and>
           (map_of an (dim_key d) = None) = (call_fails w context d \<or> parses_falsy w context d) \<and>
           (\<forall>v. map_of an (dim_key d) = Some v \<longrightarrow>
                (\<exists>t. generate_content w (dim_prompt d context) = Inr t \<and>
                     (if structured d
                      then json_loads w t = Inr v \<or>
                           (isl (json_loads w t) \<and> v = PDict [(''summary'', PStr t)])
                      else v = PDict [(text_field d, PStr t)])))"
proof -
  obtain ctx an where
    c: "prepare_context w data = Inr ctx" and
    a: "analyze w data =
             Inr [(''timestamp'', PStr (now_isoformat w)),
                  (''query'', dict_get data ''query'' (PStr ''Unknown'')),
                  (''sources_analyzed'', PInt (int (length srcs))),
                  (''analysis'', PDict an)]" and
    keys: "map fst an = map dim_key (filter (usable w ctx) all_dimensions)" and
    look: "\<And>d. map_of an (dim_key d) =
                  (case analyze_dimension w d ctx of
                     Inr v \<Rightarrow> if truthy v then Some v else None | Inl e \<Rightarrow> None)" and
    tr: "\<forall>k v. map_of an k = Some v \<longrightarrow> truthy v"
    using analyze_keys [OF assms, of w] by blast
  have f: "parses_falsy w ctx d \<longrightarrow>
              map_of an (dim_key d) = None \<and>
              analyze (w\<lparr>generate_content := (generate_content w)(dim_prompt d ctx := Inl e)\<rparr>) data
                = analyze w data"
  proof
    assume pf: "parses_falsy w ctx d"
    obtain v where "analyze_dimension w d ctx = Inr v" "\<not> truthy v"
      using analyze_dimension_returns [of w d ctx] pf by (auto simp: usable_def)
    then have "map_of an (dim_key d) = None"
      by (simp add: look)
    then show "map_of an (dim_key d) = None \<and>
              analyze (w\<lparr>generate_content := (generate_content w)(dim_prompt d ctx := Inl e)\<rparr>) data
                = analyze w data"
      using analyze_as_if_failed [OF assms c pf] by simp
  qed
  obtain x where x: "analyze_dimension w d ctx = Inr x" "truthy x = usable w ctx d"
    using analyze_dimension_returns [of w d ctx] by blast
  have o: "(map_of an (dim_key d) = None) = (call_fails w ctx d \<or> parses_falsy w ctx d)"
    using x by (simp add: look usable_def)
  have s: "\<forall>v. map_of an (dim_key d) = Some v \<longrightarrow>
                (\<exists>t. generate_content w (dim_prompt d ctx) = Inr t \<and>
                     (if structured d
                      then json_loads w t = Inr v \<or>
                           (isl (json_loads w t) \<and> v = PDict [(''summary'', PStr t)])
                      else v = PDict [(text_field d, PStr t)]))"
  proof (intro allI impI)
    fix v
    assume "map_of an (dim_key d) = Some v"
    then have "analyze_dimension w d ctx = Inr v" and "truthy v"
      using x by (simp_all add: look split: if_splits)
    from analyze_dimension_value [OF this]
    show "\<exists>t. generate_content w (dim_prompt d ctx) = Inr t \<and>
                     (if structured d
                      then json_loads w t = Inr v \<or>
                           (isl (json_loads w t) \<and> v = PDict [(''summary'', PStr t)])
                      else v = PDict [(text_field d, PStr t)])"
      by (cases d) simp_all
  qed
  show ?thesis
    using c a f tr keys o s by (intro exI [of _ ctx] exI [of _ an]) simp
qed

theorem falsy_result_omitted_witness:
  "map_of acme_data ''sources'' = Some (PList (map PStr [''Company Database''])) \<and>
   map_of acme_data ''raw_content'' =
     Some (PDict [(''company'', PDict [(''name'', PStr ''Acme Corp''), (''industry'', PStr ''Technology'')])]) \<and>
   parses_falsy (example_world (reply_with ''{}'')) acme_context Financial \<and>
   (\<exists>an. analyze (example_world (reply_with ''{}'')) acme_data =
            Inr [(''timestamp'', PStr ''2024-01-01T00:00:00''),
                 (''query'', PStr ''Acme Corp''),
                 (''sources_analyzed'', PInt 1),
                 (''analysis'', PDict an)] \<and>
          map_of an ''financial'' = None \<and>
          map fst an = [''history'', ''industry'', ''predictions''] \<and>
          map_of an ''history'' = Some (PDict [(''timeline'', PStr ''{}'')])) \<and>
   analyze ((example_world (reply_with ''{}''))
              \<lparr>generate_content :=
                 (generate_content (example_world (reply_with ''{}'')))
                   (financial_prompt acme_context := Inl (ExternalError ''quota exceeded''))\<rparr>)
           acme_data
     = analyze (example_world (reply_with ''{}'')) acme_data"
proof -
  let ?w = "example_world (reply_with ''{}'')"
  let ?e = "ExternalError ''quota exceeded''"
  have pf: "parses_falsy ?w acme_context Financial"
    by (simp add: parses_falsy_def example_world_def reply_with_def json_loads_sample_def)
  have q: "dict_get acme_data ''query'' (PStr ''Unknown'') = PStr ''Acme Corp''"
    by (simp add: acme_data_def dict_get_def)
  have n: "now_isoformat ?w = ''2024-01-01T00:00:00''"
    by (simp add: example_world_def)
  have g: "generate_content ?w p = Inr ''{}''" for p
    by (simp add: example_world_def reply_with_def)
  have u: "filter (usable ?w acme_context) all_dimensions = [History, Industry, Predictions]"
    by (simp add: usable_def call_fails_def parses_falsy_def example_world_def reply_with_def
          all_dimensions_def json_loads_sample_def)
  have h: "\<not> (call_fails ?w acme_context History \<or> parses_falsy ?w acme_context History)"
    by (simp add: call_fails_def parses_falsy_def g)
  obtain c an where
    c: "prepare_context ?w acme_data = Inr c" and
    a: "analyze ?w acme_data =
             Inr [(''timestamp'', PStr (now_isoformat ?w)),
                  (''query'', dict_get acme_data ''query'' (PStr ''Unknown'')),
                  (''sources_analyzed'', PInt (int (length [''Company Database'']))),
                  (''analysis'', PDict an)]" and
    k: "parses_falsy ?w c Financial \<longrightarrow>
              map_of an (dim_key Financial) = None \<and>
              analyze (?w\<lparr>generate_content :=
                            (generate_content ?w)(dim_prompt Financial c := Inl ?e)\<rparr>)
                      acme_data
                = analyze ?w acme_data" and
    m: "map fst an = map dim_key (filter (usable ?w c) all_dimensions)"
    using falsy_result_omitted [OF acme_well_formed, of ?w Financial ?e]
    by blast
  obtain c' an' where
    c': "prepare_context ?w acme_data = Inr c'" and
    a': "analyze ?w acme_data =
             Inr [(''timestamp'', PStr (now_isoformat ?w)),
                  (''query'', dict_get acme_data ''query'' (PStr ''Unknown'')),
                  (''sources_analyzed'', PInt (int (length [''Company Database'']))),
                  (''analysis'', PDict an')]" and
    o: "(map_of an' (dim_key History) = None) =
          (call_fails ?w c' History \<or> parses_falsy ?w c' History)" and
    s: "\<forall>v. map_of an' (dim_key History) = Some v \<longrightarrow>
                (\<exists>t. generate_content ?w (dim_prompt History c') = Inr t \<and>
                     (if structured History
                      then json_loads ?w t = Inr v \<or>
                           (isl (json_loads ?w t) \<and> v = PDict [(''summary'', PStr t)])
                      else v = PDict [(text_field History, PStr t)]))"
    using falsy_result_omitted [OF acme_well_formed, of ?w History ?e]
    by (elim exE conjE) (rule that; assumption)
  have ce: "c = acme_context" "c' = acme_context"
    using c c' by (simp_all add: acme_prepare_context)
  have ae: "an' = an"
    using a a' by simp
  obtain v where v: "map_of an (dim_key History) = Some v"
    using o h ce ae by auto
  then obtain t where "generate_content ?w (dim_prompt History c') = Inr t"
      and "v = PDict [(''timeline'', PStr t)]"
    using s ae by auto
  then have "v = PDict [(''timeline'', PStr ''{}'')]"
    by (simp add: g)
  then have hv: "map_of an ''history'' = Some (PDict [(''timeline'', PStr ''{}'')])"
    using v by simp
  have mk: "map fst an = [''history'', ''industry'', ''predictions'']"
    using m ce by (simp add: u)
  show ?thesis
    using a k pf acme_well_formed hv mk ce by (simp add: q n)
qed

lemma acme_analysis_lookup:
  "\<exists>an. result_of (analyze (example_world backend) acme_data) =
            [(''timestamp'', PStr ''2024-01-01T00:00:00''),
             (''query'', PStr ''Acme Corp''),
             (''sources_analyzed'', PInt 1),
             (''analysis'', PDict an)] \<and>
         (\<forall>d. map_of an (dim_key d) =
                  (case analyze_dimension (example_world backend) d acme_context of
                     Inr v \<Rightarrow> if truthy v then Some v else None | Inl e \<Rightarrow> None))"
proof -
  have q: "dict_get acme_data ''query'' (PStr ''Unknown'') = PStr ''Acme Corp''"
    by (simp add: acme_data_def dict_get_def)
  have n: "now_isoformat (example_world backend) = ''2024-01-01T00:00:00''"
    by (simp add: example_world_def)
  show ?thesis
    using analyze_keys [OF acme_well_formed, of "example_world backend"]
    by (auto simp: acme_prepare_context q n)
qed

text \<open>
  C8 as stated fails in its last clause: when the backend answers \<open>[1]\<close>, the record has
  no \<open>error\<close>, and \<open>analysis['financial']\<close> is the list \<open>[1]\<close>, which is not a dictionary.
\<close>

theorem list_reply_stored:
  "failing_dimensions (example_world (reply_with ''[1]'')) acme_data = [] \<and>
   map_of (result_of (analyze (example_world (reply_with ''[1]'')) acme_data)) ''error'' = None \<and>
   obj_get (analysis_of (analyze (example_world (reply_with ''[1]'')) acme_data)) ''financial'' PNone
     = Inr (PList [PInt 1]) \<and>
   \<not> is_dict (PList [PInt 1])"
proof -
  let ?w = "example_world (reply_with ''[1]'')"
  have f: "failing_dimensions ?w acme_data = []"
    unfolding acme_failing
    by (simp add: call_fails_def example_world_def reply_with_def all_dimensions_def)
  have v: "analyze_dimension ?w Financial acme_context = Inr (PList [PInt 1])"
    by (simp add: analyze_financial_def example_world_def reply_with_def json_loads_sample_def)
  obtain an where
    r: "result_of (analyze ?w acme_data) =
            [(''timestamp'', PStr ''2024-01-01T00:00:00''),
             (''query'', PStr ''Acme Corp''),
             (''sources_analyzed'', PInt 1),
             (''analysis'', PDict an)]" and
    k: "\<forall>d. map_of an (dim_key d) =
                  (case analyze_dimension ?w d acme_context of
                     Inr v \<Rightarrow> if truthy v then Some v else None | Inl e \<Rightarrow> None)"
    using acme_analysis_lookup [of "reply_with ''[1]''"] by blast
  have "map_of an ''financial'' = Some (PList [PInt 1])"
    using k [rule_format, of Financial] v by simp
  then show ?thesis
    using f r by (simp add: analysis_of_def dict_get_def)
qed

section \<open>Properties of the report generator\<close>

text \<open>
  C10.  The record of \<open>_error_insights\<close> has the keys timestamp, query, error and analysis
  and no \<open>sources_analyzed\<close>, whatever the collected data are; the header of its report
  says \<open>Sources Analyzed: 0\<close>, and the report is that header, the note of the error and
  the footer.
\<close>

theorem error_record_has_no_source_count:
  "map fst (error_insights w data error) = [''timestamp'', ''query'', ''error'', ''analysis''] \<and>
   map_of (error_insights w data error) ''sources_analyzed'' = None \<and>
   build_header w query (error_insights w data error) =
     ''# Research Report: '' @ query @ nl @ nl @
     ''**Generated:** '' @ now_isoformat w @ nl @
     ''**Sources Analyzed:** 0'' @ nl @
     ''**Report Version:** 1.0'' @ nl @ nl @
     ''---'' @ nl @ nl \<and>
   generate w query (error_insights w data error) =
     Inr (build_header w query (error_insights w data error) @
          ''## Executive Summary'' @ nl @ nl @
          ''*Note: Analysis encountered an issue: '' @ error @ ''*'' @ nl @ nl @
          build_footer)"
proof -
  have k: "map fst (error_insights w data error) = [''timestamp'', ''query'', ''error'', ''analysis'']"
    by (simp add: error_insights_def)
  have m: "map_of (error_insights w data error) ''sources_analyzed'' = None"
    by (simp add: error_insights_def)
  have z: "str_of_int 0 = ''0''"
    by (simp add: str_of_int_def str_of_nat.simps)
  have h: "build_header w query (error_insights w data error) =
     ''# Research Report: '' @ query @ nl @ nl @
     ''**Generated:** '' @ now_isoformat w @ nl @
     ''**Sources Analyzed:** 0'' @ nl @
     ''**Report Version:** 1.0'' @ nl @ nl @
     ''---'' @ nl @ nl"
    by (simp add: build_header_def error_insights_def dict_get_def template_version_def z)
  have e: "analysis_entry (error_insights w data error) k = Inr (PDict [])"
    if "k \<noteq> ''status''" "k \<noteq> ''message''" for k
    using that by (simp add: analysis_entry_def error_insights_def dict_get_def)
  have s: "build_executive_summary w (error_insights w data error) =
          ''## Executive Summary'' @ nl @ nl @
          ''*Note: Analysis encountered an issue: '' @ error @ ''*'' @ nl @ nl"
    by (simp add: build_executive_summary_def error_insights_def dict_get_def)
  have g: "generate w query (error_insights w data error) =
     Inr (build_header w query (error_insights w data error) @
          build_executive_summary w (error_insights w data error) @ build_footer)"
    by (simp add: generate_def build_financial_section_def build_history_section_def
          build_industry_section_def build_swot_section_def build_predictions_section_def
          narrative_section_def e)
  show ?thesis
    using k m h g by (simp add: s)
qed

lemma financial_lines_filter:
  "concat (map (financial_line tc rp) kvs) =
   concat (map (\<lambda>(key, val). ''**'' @ tc (str_replace CHR ''_'' '' '' key) @ '':** '' @
                              py_str rp val @ nl @ nl)
               (filter (\<lambda>(key, val). key \<noteq> ''summary'') kvs))"
  by (induction kvs) (auto simp: financial_line_def)

text \<open>
  C3, as amended.  For a financial result that is a non-empty dictionary, the section is the
  heading followed by one line \<open>**Title:** value\<close> per field other than \<open>summary\<close>, in the
  dictionary's order, where the title is the field's name with every underscore replaced by
  a blank and then title-cased by \<open>str.title()\<close>; the field \<open>summary\<close> is never rendered, so
  a result whose only field is \<open>summary\<close> gives the heading alone.
\<close>

theorem financial_section_skips_summary:
  assumes "analysis_entry insights ''financial'' = Inr (PDict kvs)" and "kvs \<noteq> []"
  shows "build_financial_section w insights =
           Inr (''## Financial Analysis'' @ nl @ nl @
                concat (map (\<lambda>(key, val). ''**'' @ title w (str_replace CHR ''_'' '' '' key) @
                                           '':** '' @ py_str (repr w) val @ nl @ nl)
                            (filter (\<lambda>(key, val). key \<noteq> ''summary'') kvs))) \<and>
         (list_all (\<lambda>(key, val). key = ''summary'') kvs \<longrightarrow>
            build_financial_section w insights = Inr (''## Financial Analysis'' @ nl @ nl))"
proof -
  have a: "build_financial_section w insights =
           Inr (''## Financial Analysis'' @ nl @ nl @ concat (map (financial_line (title w) (repr w)) kvs))"
    using assms by (simp add: build_financial_section_def)
  have "concat (map (financial_line (title w) (repr w)) kvs) = []"
    if "list_all (\<lambda>(key, val). key = ''summary'') kvs"
    using that by (induction kvs) (auto simp: financial_line_def)
  then show ?thesis
    using a by (simp add: financial_lines_filter)
qed

theorem financial_section_skips_summary_witness:
  "analysis_entry financial_insights ''financial'' =
     Inr (PDict [(''revenue'', PStr ''growing''), (''summary'', PStr ''n/a''),
                 (''investment_rating'', PStr ''buy'')]) \<and>
   build_financial_section (example_world (reply_with ''{}'')) financial_insights =
     Inr (''## Financial Analysis'' @ nl @ nl @
          ''**Revenue:** growing'' @ nl @ nl @
          ''**Investment Rating:** buy'' @ nl @ nl) \<and>
   analysis_entry summary_only_insights ''financial'' = Inr (PDict [(''summary'', PStr ''Revenue is up'')]) \<and>
   list_all (\<lambda>(key, val). key = ''summary'') [(''summary'', PStr ''Revenue is up'')] \<and>
   build_financial_section (example_world (reply_with ''{}'')) summary_only_insights =
     Inr (''## Financial Analysis'' @ nl @ nl)"
proof -
  let ?w = "example_world (reply_with ''{}'')"
  have e1: "analysis_entry financial_insights ''financial'' =
     Inr (PDict [(''revenue'', PStr ''growing''), (''summary'', PStr ''n/a''),
                 (''investment_rating'', PStr ''buy'')])"
    by (simp add: analysis_entry_def financial_insights_def dict_get_def)
  have e2: "analysis_entry summary_only_insights ''financial'' = Inr (PDict [(''summary'', PStr ''Revenue is up'')])"
    by (simp add: analysis_entry_def summary_only_insights_def dict_get_def)
  have t1: "str_title (str_replace CHR ''_'' '' '' ''revenue'') = ''Revenue''"
    by (simp add: str_title_def str_replace_def is_cased_def upper_char_def lower_char_def
          lower_letters_def upper_letters_def)
  have t2: "str_title (str_replace CHR ''_'' '' '' ''investment_rating'') = ''Investment Rating''"
    by (simp add: str_title_def str_replace_def is_cased_def upper_char_def lower_char_def
          lower_letters_def upper_letters_def)
  have tw: "title ?w = str_title"
    by (simp add: example_world_def)
  have s1: "build_financial_section ?w financial_insights =
     Inr (''## Financial Analysis'' @ nl @ nl @
          ''**Revenue:** growing'' @ nl @ nl @
          ''**Investment Rating:** buy'' @ nl @ nl)"
    using financial_section_skips_summary [OF e1, of ?w] by (simp add: tw t1 t2)
  have s2: "build_financial_section ?w summary_only_insights = Inr (''## Financial Analysis'' @ nl @ nl)"
    using financial_section_skips_summary [OF e2, of ?w] by simp
  show ?thesis
    using e1 e2 s1 s2 by simp
qed

text \<open>
  C3 as stated fails: for the financial result \<open>{'summary': 'Revenue is up'}\<close> the section
  is the heading alone, and the text does not occur in it.
\<close>

theorem summary_only_financial_shows_no_text:
  "build_financial_section (example_world (reply_with ''{}'')) summary_only_insights =
     Inr (''## Financial Analysis'' @ nl @ nl) \<and>
   \<not> sublist ''Revenue is up'' (''## Financial Analysis'' @ nl @ nl)"
proof -
  have "build_financial_section (example_world (reply_with ''{}'')) summary_only_insights =
     Inr (''## Financial Analysis'' @ nl @ nl)"
    by (simp add: build_financial_section_def analysis_entry_def summary_only_insights_def
        dict_get_def financial_line_def)
  moreover have "\<not> sublist ''Revenue is up'' (''## Financial Analysis'' @ nl @ nl)"
    by (simp add: sublist_Cons_right)
  ultimately show ?thesis by blast
qed

lemma dict_get_dict_set:
  "dict_get (dict_set k v d) k' dflt = (if k' = k then v else dict_get d k' dflt)"
  by (simp add: dict_get_def dict_set_def update_conv')

lemma map_of_dict_set:
  "map_of (dict_set k v d) k' = (if k' = k then Some v else map_of d k')"
  by (simp add: dict_set_def update_conv')

lemma swot_summary_section:
  assumes "analysis_entry insights ''swot'' = Inr (PDict [(''summary'', PStr text)])"
  shows "build_swot_section w insights =
           Inr (''## SWOT Analysis'' @ nl @ nl @
                ''### Strengths'' @ nl @ nl @
                ''### Weaknesses'' @ nl @ nl @
                ''### Opportunities'' @ nl @ nl @
                ''### Threats'' @ nl @ nl)"
  using assms
  by (simp add: build_swot_section_def swot_category_def dict_get_def upper_char_def
        lower_char_def lower_letters_def upper_letters_def)

lemma analysis_entry_with_swot_summary:
  "analysis_entry (with_swot_summary text analysis insights) k =
     Inr (if k = ''swot'' then PDict [(''summary'', PStr text)] else dict_get analysis k (PDict []))"
  by (simp add: analysis_entry_def with_swot_summary_def dict_get_dict_set)

text \<open>
  C9.  When the \<open>swot\<close> entry is the fallback \<open>{'summary': text}\<close>, the SWOT section is
  the heading and the four category headings, each with no item; and the summary text
  leaves no trace in the report: the report is the same whatever the text is.
\<close>

theorem swot_summary_never_rendered:
  "(analysis_entry insights ''swot'' = Inr (PDict [(''summary'', PStr summary_text)]) \<longrightarrow>
      build_swot_section w insights =
        Inr (''## SWOT Analysis'' @ nl @ nl @
             ''### Strengths'' @ nl @ nl @
             ''### Weaknesses'' @ nl @ nl @
             ''### Opportunities'' @ nl @ nl @
             ''### Threats'' @ nl @ nl)) \<and>
   analysis_entry (with_swot_summary summary_text analysis base) ''swot'' =
     Inr (PDict [(''summary'', PStr summary_text)]) \<and>
   generate w query (with_swot_summary summary_text analysis base) =
     generate w query (with_swot_summary other_text analysis base)"
proof -
  have s: "build_swot_section w (with_swot_summary t analysis base) =
           Inr (''## SWOT Analysis'' @ nl @ nl @
                ''### Strengths'' @ nl @ nl @
                ''### Weaknesses'' @ nl @ nl @
                ''### Opportunities'' @ nl @ nl @
                ''### Threats'' @ nl @ nl)" for t
    by (rule swot_summary_section) (simp add: analysis_entry_with_swot_summary)
  have hd: "build_header w query (with_swot_summary t analysis base) = build_header w query base" for t
    by (simp add: build_header_def with_swot_summary_def dict_get_dict_set)
  have e: "build_executive_summary w (with_swot_summary t analysis base) =
           build_executive_summary w base" for t
    by (simp add: build_executive_summary_def with_swot_summary_def dict_get_dict_set map_of_dict_set)
  have f: "build_financial_section w (with_swot_summary t analysis base) =
           build_financial_section w (with_swot_summary other_text analysis base)" for t
    by (simp add: build_financial_section_def analysis_entry_with_swot_summary)
  have n: "narrative_section w k h fld (with_swot_summary t analysis base) =
           narrative_section w k h fld (with_swot_summary other_text analysis base)"
    if "k \<noteq> ''swot''" for t k h fld
    using that by (simp add: narrative_section_def analysis_entry_with_swot_summary)
  have "generate w query (with_swot_summary summary_text analysis base) =
     generate w query (with_swot_summary other_text analysis base)"
    by (simp add: generate_def s hd e f [of summary_text] build_history_section_def build_industry_section_def
          build_predictions_section_def n [where t = summary_text])
  then show ?thesis
    using swot_summary_section [of insights summary_text w]
    by (simp add: analysis_entry_with_swot_summary)
qed

theorem swot_summary_never_rendered_witness:
  "analysis_entry (with_swot_summary ''Revenue is up'' [] empty_insights) ''swot'' =
     Inr (PDict [(''summary'', PStr ''Revenue is up'')]) \<and>
   build_swot_section (example_world (reply_with ''{}''))
       (with_swot_summary ''Revenue is up'' [] empty_insights) =
     Inr (''## SWOT Analysis'' @ nl @ nl @
          ''### Strengths'' @ nl @ nl @
          ''### Weaknesses'' @ nl @ nl @
          ''### Opportunities'' @ nl @ nl @
          ''### Threats'' @ nl @ nl) \<and>
   generate (example_world (reply_with ''{}'')) ''Acme Corp''
       (with_swot_summary ''Revenue is up'' [] empty_insights) =
     generate (example_world (reply_with ''{}'')) ''Acme Corp''
       (with_swot_summary [] [] empty_insights)"
  using swot_summary_never_rendered
          [where insights = "with_swot_summary ''Revenue is up'' [] empty_insights"
             and summary_text = "''Revenue is up''" and w = "example_world (reply_with ''{}'')"
             and analysis = "[]" and query = "''Acme Corp''" and other_text = "[]"
             and base = empty_insights]
  by blast

lemma section_shape:
  assumes "analysis_entry insights (dim_key d) = Inr v"
  shows "\<exists>body. section_of w d insights =
                  Inr (if truthy v then section_heading d @ nl @ nl @ body else [])"
  using assms
  by (cases d)
     (auto simp: build_financial_section_def build_history_section_def build_industry_section_def
        build_swot_section_def build_predictions_section_def narrative_section_def)

lemma analysis_entry_dict:
  assumes "dict_get insights ''analysis'' (PDict []) = PDict an"
  shows "analysis_entry insights k = Inr (dict_get an k (PDict []))"
  using assms by (simp add: analysis_entry_def)

lemma section_absent:
  assumes "dict_get insights ''analysis'' (PDict []) = PDict an" and "map_of an (dim_key d) = None"
  shows "section_of w d insights = Inr []"
proof -
  have "analysis_entry insights (dim_key d) = Inr (PDict [])"
    using assms by (simp add: analysis_entry_dict dict_get_def)
  from section_shape [OF this, of w] show ?thesis by simp
qed

lemma generate_sections:
  assumes "dict_get insights ''analysis'' (PDict []) = PDict an"
  shows "generate w query insights =
           Inr (build_header w query insights @ build_executive_summary w insights @
                concat (map (section_text w insights) all_dimensions) @ build_footer)"
proof -
  have "\<exists>s. section_of w d insights = Inr s" for d
    using section_shape [OF analysis_entry_dict [OF assms], where d = d and w = w] by blast
  then obtain s1 s2 s3 s4 s5 where
    "section_of w Financial insights = Inr s1" "section_of w History insights = Inr s2"
    "section_of w Industry insights = Inr s3" "section_of w Swot insights = Inr s4"
    "section_of w Predictions insights = Inr s5"
    by metis
  then show ?thesis
    by (simp add: generate_def section_text_def all_dimensions_def)
qed

lemma generate_malformed:
  assumes "\<not> is_dict (dict_get insights ''analysis'' (PDict []))"
  shows "\<exists>message. generate w query insights = Inr (error_report w query message)"
proof -
  obtain e where "analysis_entry insights ''financial'' = Inl e"
    using assms by (cases "dict_get insights ''analysis'' (PDict [])") (simp_all add: analysis_entry_def)
  then have "generate w query insights = Inr (error_report w query (exn_str e))"
    by (simp add: generate_def build_financial_section_def)
  then show ?thesis by blast
qed

lemma generate_empty_analysis:
  assumes "dict_get insights ''analysis'' (PDict []) = PDict []"
  shows "generate w query insights =
           Inr (build_header w query insights @ build_executive_summary w insights @ build_footer)"
proof -
  have "section_text w insights d = []" for d
    using section_absent [OF assms, where d = d and w = w] by (simp add: section_text_def)
  then have "concat (map (section_text w insights) all_dimensions) = []"
    by (simp add: all_dimensions_def)
  then show ?thesis
    using generate_sections [OF assms, where w = w and query = query] by simp
qed

lemma executive_summary_overview:
  assumes "map_of insights ''error'' = None"
  shows "build_executive_summary w insights =
           ''## Executive Summary'' @ nl @ nl @
           ''This report provides a comprehensive analysis of the subject based on '' @
           py_str (repr w) (dict_get insights ''sources_analyzed'' (PInt 0)) @ '' sources. '' @
           ''The analysis includes financial metrics, historical background, industry positioning, '' @
           ''SWOT analysis, and future predictions.'' @ nl @ nl"
  using assms by (simp add: build_executive_summary_def)

lemma executive_summary_note:
  assumes "map_of insights ''error'' = Some err"
  shows "build_executive_summary w insights =
           ''## Executive Summary'' @ nl @ nl @
           ''*Note: Analysis encountered an issue: '' @ py_str (repr w) err @ ''*'' @ nl @ nl"
  using assms by (simp add: build_executive_summary_def dict_get_def)

lemma executive_summary_ignores_analysis:
  "build_executive_summary w (dict_set ''analysis'' other_analysis insights) =
   build_executive_summary w insights"
  by (simp add: build_executive_summary_def dict_get_dict_set map_of_dict_set)

text \<open>
  C5, as amended.  The section of a dimension starts with its heading when the dimension's
  entry in \<open>analysis\<close> is a true value, and is the empty string when the entry is absent or
  false.  When \<open>analysis\<close> is a dictionary the report is the header, the executive summary,
  the five sections in order and the footer; when it is empty the report is the header, the
  executive summary and the footer only.  When \<open>analysis\<close> is not a dictionary the report
  is the error report, which has no section either.  The executive summary does not read
  \<open>analysis\<close>: it is the note of the error when the record has an \<open>error\<close>, and otherwise
  the overview paragraph with the number of sources, the same for an empty analysis as for
  a complete one.  The header and the footer are the fixed texts around the query, the
  timestamp and the number of sources.
\<close>

theorem sections_only_for_present_dimensions:
  "(analysis_entry insights (dim_key d) = Inr v \<longrightarrow>
      (\<exists>body. section_of w d insights =
                 Inr (if truthy v then section_heading d @ nl @ nl @ body else []))) \<and>
   (dict_get insights ''analysis'' (PDict []) = PDict an \<longrightarrow>
      generate w query insights =
        Inr (build_header w query insights @ build_executive_summary w insights @
             concat (map (section_text w insights) all_dimensions) @ build_footer) \<and>
      (map_of an (dim_key d) = None \<longrightarrow> section_text w insights d = [])) \<and>
   (dict_get insights ''analysis'' (PDict []) = PDict [] \<longrightarrow>
      generate w query insights =
        Inr (build_header w query insights @ build_executive_summary w insights @ build_footer)) \<and>
   (\<not> is_dict (dict_get insights ''analysis'' (PDict [])) \<longrightarrow>
      (\<exists>message. generate w query insights = Inr (error_report w query message))) \<and>
   (map_of insights ''error'' = None \<longrightarrow>
      build_executive_summary w insights =
        ''## Executive Summary'' @ nl @ nl @
        ''This report provides a comprehensive analysis of the subject based on '' @
        py_str (repr w) (dict_get insights ''sources_analyzed'' (PInt 0)) @ '' sources. '' @
        ''The analysis includes financial metrics, historical background, industry positioning, '' @
        ''SWOT analysis, and future predictions.'' @ nl @ nl) \<and>
   (map_of insights ''error'' = Some err \<longrightarrow>
      build_executive_summary w insights =
        ''## Executive Summary'' @ nl @ nl @
        ''*Note: Analysis encountered an issue: '' @ py_str (repr w) err @ ''*'' @ nl @ nl) \<and>
   build_executive_summary w (dict_set ''analysis'' other_analysis insights) =
     build_executive_summary w insights \<and>
   build_header w query insights =
     ''# Research Report: '' @ query @ nl @ nl @
     ''**Generated:** '' @
       py_str (repr w) (dict_get insights ''timestamp'' (PStr (now_isoformat w))) @ nl @
     ''**Sources Analyzed:** '' @
       py_str (repr w) (dict_get insights ''sources_analyzed'' (PInt 0)) @ nl @
     ''**Report Version:** 1.0'' @ nl @ nl @
     ''---'' @ nl @ nl \<and>
   build_footer =
     ''---'' @ nl @ nl @
     ''*Report generated by AI Data Scientist Agent v1.0*'' @ nl @
     ''*Using Google Gemini API for intelligent analysis*'' @ nl @
     ''*For more information, visit: https://github.com/Angelsk2207/ai-data-scientist-agent*'' @ nl"
proof -
  have secs: "(analysis_entry insights (dim_key d) = Inr v \<longrightarrow>
      (\<exists>body. section_of w d insights =
                 Inr (if truthy v then section_heading d @ nl @ nl @ body else []))) \<and>
   (dict_get insights ''analysis'' (PDict []) = PDict an \<longrightarrow>
      generate w query insights =
        Inr (build_header w query insights @ build_executive_summary w insights @
             concat (map (section_text w insights) all_dimensions) @ build_footer) \<and>
      (map_of an (dim_key d) = None \<longrightarrow> section_text w insights d = [])) \<and>
   (dict_get insights ''analysis'' (PDict []) = PDict [] \<longrightarrow>
      generate w query insights =
        Inr (build_header w query insights @ build_executive_summary w insights @ build_footer)) \<and>
   (\<not> is_dict (dict_get insights ''analysis'' (PDict [])) \<longrightarrow>
      (\<exists>message. generate w query insights = Inr (error_report w query message)))"
  proof -
    have "dict_get insights ''analysis'' (PDict []) = PDict an \<longrightarrow>
        map_of an (dim_key d) = None \<longrightarrow> section_text w insights d = []"
      using section_absent [where insights = insights and an = an and d = d and w = w]
      by (simp add: section_text_def)
    then show ?thesis
      using section_shape [where insights = insights and d = d and v = v and w = w]
        generate_sections [where insights = insights and an = an and w = w and query = query]
        generate_empty_analysis [where insights = insights and w = w and query = query]
        generate_malformed [where insights = insights and w = w and query = query]
      by blast
  qed
  have hd: "build_header w query insights =
     ''# Research Report: '' @ query @ nl @ nl @
     ''**Generated:** '' @
       py_str (repr w) (dict_get insights ''timestamp'' (PStr (now_isoformat w))) @ nl @
     ''**Sources Analyzed:** '' @
       py_str (repr w) (dict_get insights ''sources_analyzed'' (PInt 0)) @ nl @
     ''**Report Version:** 1.0'' @ nl @ nl @
     ''---'' @ nl @ nl"
    by (simp add: build_header_def template_version_def)
  have ft: "build_footer =
     ''---'' @ nl @ nl @
     ''*Report generated by AI Data Scientist Agent v1.0*'' @ nl @
     ''*Using Google Gemini API for intelligent analysis*'' @ nl @
     ''*For more information, visit: https://github.com/Angelsk2207/ai-data-scientist-agent*'' @ nl"
    by (simp add: build_footer_def template_version_def)
  show ?thesis
    using secs hd ft
      executive_summary_overview [where insights = insights and w = w]
      executive_summary_note [where insights = insights and w = w and err = err]
      executive_summary_ignores_analysis
        [where insights = insights and w = w and other_analysis = other_analysis]
    by (intro conjI impI) blast+
qed

theorem sections_only_for_present_dimensions_witness:
  "analysis_entry history_only_insights ''financial'' = Inr (PDict []) \<and>
   build_financial_section (example_world (reply_with ''{}'')) history_only_insights = Inr [] \<and>
   dict_get history_only_insights ''analysis'' (PDict [])
     = PDict [(''history'', PDict [(''timeline'', PStr ''Founded in 1949.'')])] \<and>
   generate (example_world (reply_with ''{}'')) ''Acme Corp'' history_only_insights =
     Inr (build_header (example_world (reply_with ''{}'')) ''Acme Corp'' history_only_insights @
          build_executive_summary (example_world (reply_with ''{}'')) history_only_insights @
          ''## History & Background'' @ nl @ nl @ ''Founded in 1949.'' @ nl @ nl @
          build_footer) \<and>
   dict_get empty_insights ''analysis'' (PDict []) = PDict [] \<and>
   generate (example_world (reply_with ''{}'')) ''Acme Corp'' empty_insights =
     Inr (build_header (example_world (reply_with ''{}'')) ''Acme Corp'' empty_insights @
          build_executive_summary (example_world (reply_with ''{}'')) empty_insights @
          build_footer) \<and>
   \<not> is_dict (dict_get [(''analysis'', PStr ''none'')] ''analysis'' (PDict [])) \<and>
   (\<exists>message. generate (example_world (reply_with ''{}'')) ''Acme Corp'' [(''analysis'', PStr ''none'')] =
                Inr (error_report (example_world (reply_with ''{}'')) ''Acme Corp'' message)) \<and>
   map_of empty_insights ''error'' = None \<and>
   build_executive_summary (example_world (reply_with ''{}'')) empty_insights =
     ''## Executive Summary'' @ nl @ nl @
     ''This report provides a comprehensive analysis of the subject based on 0 sources. '' @
     ''The analysis includes financial metrics, historical background, industry positioning, '' @
     ''SWOT analysis, and future predictions.'' @ nl @ nl \<and>
   map_of failed_insights ''error'' = Some (PStr ''can only join an iterable'') \<and>
   build_executive_summary (example_world (reply_with ''{}'')) failed_insights =
     ''## Executive Summary'' @ nl @ nl @
     ''*Note: Analysis encountered an issue: can only join an iterable*'' @ nl @ nl \<and>
   build_header (example_world (reply_with ''{}'')) ''Acme Corp'' empty_insights =
     ''# Research Report: Acme Corp'' @ nl @ nl @
     ''**Generated:** 2024-01-01T00:00:00'' @ nl @
     ''**Sources Analyzed:** 0'' @ nl @
     ''**Report Version:** 1.0'' @ nl @ nl @
     ''---'' @ nl @ nl"
proof -
  let ?w = "example_world (reply_with ''{}'')"
  let ?an = "[(''history'', PDict [(''timeline'', PStr ''Founded in 1949.'')])]"
  note h = sections_only_for_present_dimensions
             [where insights = history_only_insights and d = Financial and v = "PDict []"
                and w = ?w and an = ?an and query = "''Acme Corp''"]
  note e = sections_only_for_present_dimensions
             [where insights = empty_insights and d = Financial and v = "PDict []"
                and w = ?w and an = "[]" and query = "''Acme Corp''"]
  note m = sections_only_for_present_dimensions
             [where insights = "[(''analysis'', PStr ''none'')]" and d = Financial and v = "PDict []"
                and w = ?w and an = "[]" and query = "''Acme Corp''"]
  note f = sections_only_for_present_dimensions
             [where insights = failed_insights and d = Financial and v = "PDict []"
                and w = ?w and an = "[]" and query = "''Acme Corp''"
                and err = "PStr ''can only join an iterable''"]
  have a1: "analysis_entry history_only_insights ''financial'' = Inr (PDict [])"
    by (simp add: analysis_entry_def history_only_insights_def dict_get_def)
  have a2: "dict_get history_only_insights ''analysis'' (PDict []) = PDict ?an"
    by (simp add: history_only_insights_def dict_get_def)
  have a3: "dict_get empty_insights ''analysis'' (PDict []) = PDict []"
    by (simp add: empty_insights_def dict_get_def)
  have a4: "\<not> is_dict (dict_get [(''analysis'', PStr ''none'')] ''analysis'' (PDict []))"
    by (simp add: dict_get_def)
  have a5: "map_of empty_insights ''error'' = None"
    by (simp add: empty_insights_def)
  have a6: "map_of failed_insights ''error'' = Some (PStr ''can only join an iterable'')"
    by (simp add: failed_insights_def)
  have z0: "str_of_int 0 = ''0''"
    by (simp add: str_of_int_def str_of_nat.simps)
  have v0: "dict_get empty_insights ''sources_analyzed'' (PInt 0) = PInt 0"
           "dict_get empty_insights ''timestamp'' (PStr (now_isoformat ?w)) = PStr ''2024-01-01T00:00:00''"
    by (simp_all add: empty_insights_def dict_get_def)
  have s: "section_text ?w history_only_insights History =
             ''## History & Background'' @ nl @ nl @ ''Founded in 1949.'' @ nl @ nl"
    by (simp add: section_text_def build_history_section_def narrative_section_def
          analysis_entry_def history_only_insights_def dict_get_def)
  have z: "section_text ?w history_only_insights d = []" if "d \<noteq> History" for d
    using that
    by (cases d)
       (simp_all add: section_text_def build_financial_section_def build_industry_section_def
          build_swot_section_def build_predictions_section_def narrative_section_def
          analysis_entry_def history_only_insights_def dict_get_def)
  have c: "concat (map (section_text ?w history_only_insights) all_dimensions) =
             ''## History & Background'' @ nl @ nl @ ''Founded in 1949.'' @ nl @ nl"
    by (simp add: all_dimensions_def s z)
  have b1: "build_financial_section ?w history_only_insights = Inr []"
    using h a1 by simp
  have b2: "generate ?w ''Acme Corp'' history_only_insights =
     Inr (build_header ?w ''Acme Corp'' history_only_insights @
          build_executive_summary ?w history_only_insights @
          ''## History & Background'' @ nl @ nl @ ''Founded in 1949.'' @ nl @ nl @
          build_footer)"
    using h a2 by (simp add: c)
  have b3: "generate ?w ''Acme Corp'' empty_insights =
     Inr (build_header ?w ''Acme Corp'' empty_insights @
          build_executive_summary ?w empty_insights @ build_footer)"
    using e a3 by blast
  have b4: "\<exists>message. generate ?w ''Acme Corp'' [(''analysis'', PStr ''none'')] =
                Inr (error_report ?w ''Acme Corp'' message)"
    using m a4 by blast
  have e5: "build_executive_summary ?w empty_insights =
     ''## Executive Summary'' @ nl @ nl @
     ''This report provides a comprehensive analysis of the subject based on '' @
     py_str (repr ?w) (dict_get empty_insights ''sources_analyzed'' (PInt 0)) @ '' sources. '' @
     ''The analysis includes financial metrics, historical background, industry positioning, '' @
     ''SWOT analysis, and future predictions.'' @ nl @ nl"
    using e a5 by blast
  have b5: "build_executive_summary ?w empty_insights =
     ''## Executive Summary'' @ nl @ nl @
     ''This report provides a comprehensive analysis of the subject based on 0 sources. '' @
     ''The analysis includes financial metrics, historical background, industry positioning, '' @
     ''SWOT analysis, and future predictions.'' @ nl @ nl"
    unfolding e5 by (simp add: v0 z0)
  have e6: "build_executive_summary ?w failed_insights =
     ''## Executive Summary'' @ nl @ nl @
     ''*Note: Analysis encountered an issue: '' @
     py_str (repr ?w) (PStr ''can only join an iterable'') @ ''*'' @ nl @ nl"
    using f a6 by blast
  have b6: "build_executive_summary ?w failed_insights =
     ''## Executive Summary'' @ nl @ nl @
     ''*Note: Analysis encountered an issue: can only join an iterable*'' @ nl @ nl"
    unfolding e6 by simp
  have e7: "build_header ?w ''Acme Corp'' empty_insights =
     ''# Research Report: '' @ ''Acme Corp'' @ nl @ nl @
     ''**Generated:** '' @
       py_str (repr ?w) (dict_get empty_insights ''timestamp'' (PStr (now_isoformat ?w))) @ nl @
     ''**Sources Analyzed:** '' @
       py_str (repr ?w) (dict_get empty_insights ''sources_analyzed'' (PInt 0)) @ nl @
     ''**Report Version:** 1.0'' @ nl @ nl @
     ''---'' @ nl @ nl"
    using e by blast
  have b7: "build_header ?w ''Acme Corp'' empty_insights =
     ''# Research Report: Acme Corp'' @ nl @ nl @
     ''**Generated:** 2024-01-01T00:00:00'' @ nl @
     ''**Sources Analyzed:** 0'' @ nl @
     ''**Report Version:** 1.0'' @ nl @ nl @
     ''---'' @ nl @ nl"
    unfolding e7 by (simp add: v0 z0)
  show ?thesis
    using a1 a2 a3 a4 a5 a6 b1 b2 b3 b4 b5 b6 b7 by blast
qed

text \<open>
  C5 as stated fails in one word: the executive summary of a record with an empty
  \<open>analysis\<close> and no \<open>error\<close> is not degraded.  With three sources and no dimension it
  is the full overview paragraph, the very text the record with all five dimensions gets,
  and the report is the header, that paragraph and the footer.
\<close>

theorem empty_analysis_summary_not_degraded:
  "dict_get all_failed_insights ''analysis'' (PDict []) = PDict [] \<and>
   map_of all_failed_insights ''error'' = None \<and>
   build_executive_summary (example_world (reply_with ''{}'')) all_failed_insights =
     ''## Executive Summary'' @ nl @ nl @
     ''This report provides a comprehensive analysis of the subject based on 3 sources. '' @
     ''The analysis includes financial metrics, historical background, industry positioning, '' @
     ''SWOT analysis, and future predictions.'' @ nl @ nl \<and>
   build_executive_summary (example_world (reply_with ''{}'')) all_failed_insights =
     build_executive_summary (example_world (reply_with ''{}'')) complete_insights \<and>
   generate (example_world (reply_with ''{}'')) ''Acme Corp'' all_failed_insights =
     Inr (build_header (example_world (reply_with ''{}'')) ''Acme Corp'' all_failed_insights @
          ''## Executive Summary'' @ nl @ nl @
          ''This report provides a comprehensive analysis of the subject based on 3 sources. '' @
          ''The analysis includes financial metrics, historical background, industry positioning, '' @
          ''SWOT analysis, and future predictions.'' @ nl @ nl @
          build_footer)"
proof -
  let ?w = "example_world (reply_with ''{}'')"
  have a: "dict_get all_failed_insights ''analysis'' (PDict []) = PDict []"
    by (simp add: all_failed_insights_def dict_get_def)
  have n: "map_of all_failed_insights ''error'' = None"
    by (simp add: all_failed_insights_def)
  have n': "map_of complete_insights ''error'' = None"
    by (simp add: complete_insights_def)
  have z3: "str_of_int 3 = ''3''"
    by (simp add: str_of_int_def str_of_nat.simps)
  have v: "dict_get all_failed_insights ''sources_analyzed'' (PInt 0) = PInt 3"
          "dict_get complete_insights ''sources_analyzed'' (PInt 0) = PInt 3"
    by (simp_all add: all_failed_insights_def complete_insights_def dict_get_def)
  have s: "build_executive_summary ?w all_failed_insights =
     ''## Executive Summary'' @ nl @ nl @
     ''This report provides a comprehensive analysis of the subject based on 3 sources. '' @
     ''The analysis includes financial metrics, historical background, industry positioning, '' @
     ''SWOT analysis, and future predictions.'' @ nl @ nl"
    unfolding executive_summary_overview [OF n] by (simp add: v z3)
  have s': "build_executive_summary ?w complete_insights =
     ''## Executive Summary'' @ nl @ nl @
     ''This report provides a comprehensive analysis of the subject based on 3 sources. '' @
     ''The analysis includes financial metrics, historical background, industry positioning, '' @
     ''SWOT analysis, and future predictions.'' @ nl @ nl"
    unfolding executive_summary_overview [OF n'] by (simp add: v z3)
  have g: "generate ?w ''Acme Corp'' all_failed_insights =
     Inr (build_header ?w ''Acme Corp'' all_failed_insights @
          build_executive_summary ?w all_failed_insights @ build_footer)"
    by (rule generate_empty_analysis [OF a])
  show ?thesis
    unfolding g s s' using a n by simp
qed

end
